theory Spec2Isabelle
  imports Complex_Main "HOL-Library.Multiset" "HOL-Library.Log_Nat"
begin

section \<open>Untyped Firestore documents\<close>

text \<open>
  The services read \<open>DocumentData\<close>, an untyped JSON-like document. A value of a
  document is one of the JavaScript values below; \<open>JTimestamp t\<close> is a Firestore
  \<open>Timestamp\<close> object, whose \<open>toDate()\<close> is the instant \<open>t\<close> in milliseconds.
  JavaScript numbers are idealised: integers where the code counts or compares
  instants, exact rationals where it divides; the percentages of the membership
  distribution are computed in IEEE doubles.
\<close>

datatype jsval =
    JUndefined
  | JNull
  | JBool bool
  | JNum int
  | JStr string
  | JArr "jsval list"
  | JObj "(string \<times> jsval) list"
  | JTimestamp int

text \<open>\<open>ToBoolean\<close>: what \<open>!v\<close>, \<open>v || w\<close> and \<open>if (v)\<close> test.\<close>

fun truthy :: "jsval \<Rightarrow> bool" where
  "truthy JUndefined = False"
| "truthy JNull = False"
| "truthy (JBool b) = b"
| "truthy (JNum n) = (n \<noteq> 0)"
| "truthy (JStr s) = (s \<noteq> [])"
| "truthy (JArr xs) = True"
| "truthy (JObj fs) = True"
| "truthy (JTimestamp t) = True"

text \<open>\<open>a || b\<close>\<close>

definition js_or :: "jsval \<Rightarrow> jsval \<Rightarrow> jsval" where
  "js_or a b = (if truthy a then a else b)"

text \<open>
  \<open>v.k\<close> for a field name \<open>k\<close> of the document schema. The services apply it to
  documents and to values already known to be truthy, where a missing property reads
  as \<open>undefined\<close>; the places where the receiver may be \<open>null\<close> or \<open>undefined\<close>
  (and JavaScript throws) are modelled at the call site.
\<close>

fun get_field :: "jsval \<Rightarrow> string \<Rightarrow> jsval" where
  "get_field (JObj fs) k = (case map_of fs k of Some v \<Rightarrow> v | None \<Rightarrow> JUndefined)"
| "get_field v k = JUndefined"

text \<open>\<open>v?.toDate?.()\<close>: only a Firestore timestamp has a \<open>toDate\<close> method.\<close>

fun toDate :: "jsval \<Rightarrow> int option" where
  "toDate (JTimestamp t) = Some t"
| "toDate v = None"

text \<open>\<open>Array.isArray(v) && v.length > 0\<close>\<close>

fun nonempty_array :: "jsval \<Rightarrow> bool" where
  "nonempty_array (JArr xs) = (xs \<noteq> [])"
| "nonempty_array v = False"

datatype js_error = TypeError

section \<open>JavaScript dates\<close>

text \<open>
  A \<open>Date\<close> is its time value in milliseconds. The abstract operations follow the
  ECMAScript definitions (\<open>Day\<close>, \<open>TimeWithinDay\<close>, \<open>DayFromYear\<close>,
  \<open>YearFromTime\<close>, \<open>MonthFromTime\<close>, \<open>DateFromTime\<close>, \<open>MakeTime\<close>,
  \<open>MakeDay\<close>, \<open>MakeDate\<close>, \<open>LocalTime\<close>, \<open>UTC\<close>). A time value is an instant, in
  milliseconds since the epoch in UTC; the services use the local-time methods only,
  which read and write it through the time zone of the machine.
\<close>

definition msPerDay :: int where "msPerDay = 86400000"

definition Day :: "int \<Rightarrow> int" where "Day t = t div msPerDay"
definition TimeWithinDay :: "int \<Rightarrow> int" where "TimeWithinDay t = t mod msPerDay"

definition DayFromYear :: "int \<Rightarrow> int" where
  "DayFromYear y = 365 * (y - 1970) + (y - 1969) div 4 - (y - 1901) div 100 + (y - 1601) div 400"

definition leap_year :: "int \<Rightarrow> bool" where
  "leap_year y = (y mod 4 = 0 \<and> (y mod 100 \<noteq> 0 \<or> y mod 400 = 0))"

text \<open>Years get later: the searches below terminate.\<close>

lemma year_step_arith:
  fixes y p p' q q' r r' :: int
  assumes "p \<le> p'" "q' \<le> q + 1" "r \<le> r'"
  shows "365 * (y - 1970) + p - q + r < 365 * (y + 1 - 1970) + p' - q' + r'"
  using assms by (simp add: algebra_simps)

lemma DayFromYear_step: "DayFromYear y < DayFromYear (y + 1)"
proof -
  have a: "(y - 1969) div 4 \<le> (y + 1 - 1969) div 4" by (rule zdiv_mono1) simp_all
  have "(y + 1 - 1901) div 100 \<le> (y - 1901 + 100) div 100" by (rule zdiv_mono1) simp_all
  then have b: "(y + 1 - 1901) div 100 \<le> (y - 1901) div 100 + 1" by simp
  have c: "(y - 1601) div 400 \<le> (y + 1 - 1601) div 400" by (rule zdiv_mono1) simp_all
  show ?thesis unfolding DayFromYear_def by (rule year_step_arith [OF a b c])
qed

text \<open>
  \<open>YearFromTime t\<close> is the largest year \<open>y\<close> with \<open>DayFromYear y \<le> Day t\<close>: from
  an estimate, walk down to a year that starts on or before the day, then up to the last
  such year.
\<close>

function year_search :: "int \<Rightarrow> int \<Rightarrow> int" where
  "year_search y d = (if DayFromYear (y + 1) \<le> d then year_search (y + 1) d else y)"
  by pat_completeness auto
termination
proof (relation "measure (\<lambda>(y, d). nat (d - DayFromYear (y + 1) + 1))")
  show "wf (measure (\<lambda>(y, d). nat (d - DayFromYear (y + 1) + 1)))" by simp
next
  fix y d :: int
  assume "DayFromYear (y + 1) \<le> d"
  moreover have "DayFromYear (y + 1) < DayFromYear (y + 1 + 1)" by (rule DayFromYear_step)
  ultimately show "((y + 1, d), (y, d)) \<in> measure (\<lambda>(y, d). nat (d - DayFromYear (y + 1) + 1))"
    by simp
qed

function year_down :: "int \<Rightarrow> int \<Rightarrow> int" where
  "year_down y d = (if d < DayFromYear y then year_down (y - 1) d else y)"
  by pat_completeness auto
termination
proof (relation "measure (\<lambda>(y, d). nat (DayFromYear y - d))")
  show "wf (measure (\<lambda>(y, d). nat (DayFromYear y - d)))" by simp
next
  fix y d :: int
  assume "d < DayFromYear y"
  moreover have "DayFromYear (y - 1) < DayFromYear y" using DayFromYear_step [of "y - 1"] by simp
  ultimately show "((y - 1, d), (y, d)) \<in> measure (\<lambda>(y, d). nat (DayFromYear y - d))"
    by simp
qed

definition YearFromTime :: "int \<Rightarrow> int" where
  "YearFromTime t = (let d = Day t in year_search (year_down (1970 + d div 365) d) d)"

definition InLeapYear :: "int \<Rightarrow> int" where
  "InLeapYear t = (if leap_year (YearFromTime t) then 1 else 0)"

definition DayWithinYear :: "int \<Rightarrow> int" where
  "DayWithinYear t = Day t - DayFromYear (YearFromTime t)"

definition month_start :: "int \<Rightarrow> int \<Rightarrow> int" where
  "month_start m leap =
     (if m = 0 then 0 else if m = 1 then 31 else if m = 2 then 59 + leap
      else if m = 3 then 90 + leap else if m = 4 then 120 + leap
      else if m = 5 then 151 + leap else if m = 6 then 181 + leap
      else if m = 7 then 212 + leap else if m = 8 then 243 + leap
      else if m = 9 then 273 + leap else if m = 10 then 304 + leap
      else 334 + leap)"

definition MonthFromTime :: "int \<Rightarrow> int" where
  "MonthFromTime t =
     (let d = DayWithinYear t; leap = InLeapYear t
      in if d < 31 then 0 else if d < 59 + leap then 1 else if d < 90 + leap then 2
         else if d < 120 + leap then 3 else if d < 151 + leap then 4
         else if d < 181 + leap then 5 else if d < 212 + leap then 6
         else if d < 243 + leap then 7 else if d < 273 + leap then 8
         else if d < 304 + leap then 9 else if d < 334 + leap then 10
         else 11)"

definition DateFromTime :: "int \<Rightarrow> int" where
  "DateFromTime t = DayWithinYear t - month_start (MonthFromTime t) (InLeapYear t) + 1"

definition MakeTime :: "int \<Rightarrow> int \<Rightarrow> int \<Rightarrow> int \<Rightarrow> int" where
  "MakeTime h m s ms = h * 3600000 + m * 60000 + s * 1000 + ms"

definition MakeDay :: "int \<Rightarrow> int \<Rightarrow> int \<Rightarrow> int" where
  "MakeDay year month date =
     (let ym = year + month div 12; mn = month mod 12
      in DayFromYear ym + month_start mn (if leap_year ym then 1 else 0) + date - 1)"

definition MakeDate :: "int \<Rightarrow> int \<Rightarrow> int" where
  "MakeDate day time = day * msPerDay + time"

text \<open>
  The time zone of the machine: the offset from UTC in force at first, and the changes of
  offset (daylight saving, a change of standard time), each with the instant from which
  the new offset is in force, in ascending order of instants.
\<close>

record time_zone =
  zone_offset :: int
  zone_changes :: "(int \<times> int) list"

definition fixed_zone :: "int \<Rightarrow> time_zone" where
  "fixed_zone offset = \<lparr>zone_offset = offset, zone_changes = []\<rparr>"

definition offset_at :: "time_zone \<Rightarrow> int \<Rightarrow> int" where
  "offset_at z t = fold (\<lambda>(u, offset) cur. if u \<le> t then offset else cur) (zone_changes z) (zone_offset z)"

definition LocalTime :: "time_zone \<Rightarrow> int \<Rightarrow> int" where
  "LocalTime z t = t + offset_at z t"

text \<open>
  \<open>UTC z lt\<close> is the instant of the local time \<open>lt\<close>, which is \<open>lt\<close> less an offset. The
  instants that show \<open>lt\<close> on the local clock are the \<open>lt - offset\<close> at which that offset
  is in force; the offset of the earliest is taken when the clock shows \<open>lt\<close> twice. When
  the clock never shows \<open>lt\<close>, because a change moved it forward over \<open>lt\<close>, the offset is
  that of the last instant that shows the local time one day before \<open>lt\<close>: the offset
  before the change.
\<close>

definition possible_instants :: "time_zone \<Rightarrow> int \<Rightarrow> int list" where
  "possible_instants z lt =
     sort (remdups (filter (\<lambda>u. offset_at z u = lt - u)
                           (map (\<lambda>offset. lt - offset) (zone_offset z # map snd (zone_changes z)))))"

definition zone_has :: "time_zone \<Rightarrow> int \<Rightarrow> bool" where
  "zone_has z lt = (possible_instants z lt \<noteq> [])"

definition UTC :: "time_zone \<Rightarrow> int \<Rightarrow> int" where
  "UTC z lt =
     (case possible_instants z lt of
        u # us \<Rightarrow> lt - offset_at z u
      | [] \<Rightarrow> (case possible_instants z (lt - msPerDay) of
                 [] \<Rightarrow> lt - zone_offset z
               | v # vs \<Rightarrow> lt - offset_at z (last (v # vs))))"

text \<open>The methods of \<open>Date\<close> the services call: each works on the local time.\<close>

definition getDate :: "time_zone \<Rightarrow> int \<Rightarrow> int" where
  "getDate z t = DateFromTime (LocalTime z t)"

definition getMonth :: "time_zone \<Rightarrow> int \<Rightarrow> int" where
  "getMonth z t = MonthFromTime (LocalTime z t)"

definition setDate :: "time_zone \<Rightarrow> int \<Rightarrow> int \<Rightarrow> int" where
  "setDate z t dt =
     UTC z (MakeDate (MakeDay (YearFromTime (LocalTime z t)) (MonthFromTime (LocalTime z t)) dt)
                     (TimeWithinDay (LocalTime z t)))"

definition setMonth :: "time_zone \<Rightarrow> int \<Rightarrow> int \<Rightarrow> int \<Rightarrow> int" where
  "setMonth z t m dt =
     UTC z (MakeDate (MakeDay (YearFromTime (LocalTime z t)) m dt) (TimeWithinDay (LocalTime z t)))"

definition setFullYear :: "time_zone \<Rightarrow> int \<Rightarrow> int \<Rightarrow> int \<Rightarrow> int \<Rightarrow> int" where
  "setFullYear z t y m dt = UTC z (MakeDate (MakeDay y m dt) (TimeWithinDay (LocalTime z t)))"

definition setHours :: "time_zone \<Rightarrow> int \<Rightarrow> int \<Rightarrow> int \<Rightarrow> int \<Rightarrow> int \<Rightarrow> int" where
  "setHours z t h m s ms = UTC z (MakeDate (Day (LocalTime z t)) (MakeTime h m s ms))"

section \<open>Date-range resolvers\<close>

text \<open>
  Every resolver reads the clock twice (\<^verbatim>\<open>const end = new Date()\<close>, then
  \<^verbatim>\<open>const start = new Date()\<close>): \<open>now1\<close> and \<open>now2\<close> are the two readings, and
  \<open>z\<close> is the time zone of the machine.
\<close>

datatype DateRange = Last_7_days | Last_30_days | This_month | This_quarter | All_time

datatype AnalyticsRange = A_last_7_days | A_last_30_days | A_this_month | A_this_quarter | A_custom

text \<open>
  \<^verbatim>\<open>getDateRange\<close> of disputesService, mailingService, userJourneyService and
  supportService (the same text in each): \<open>null\<close> for \<open>all_time\<close>.
\<close>

definition getDateRange :: "time_zone \<Rightarrow> int \<Rightarrow> int \<Rightarrow> DateRange \<Rightarrow> (int \<times> int) option" where
  "getDateRange z now1 now2 rng =
     (if rng = All_time then None
      else
        (let endDate = setHours z now1 23 59 59 999;
             start = now2;
             start = (case rng of
                        Last_7_days \<Rightarrow> setDate z start (getDate z start - 7)
                      | Last_30_days \<Rightarrow> setDate z start (getDate z start - 30)
                      | This_month \<Rightarrow> setHours z (setDate z start 1) 0 0 0 0
                      | This_quarter \<Rightarrow>
                          (let quarter = getMonth z start div 3
                           in setHours z (setMonth z start (quarter * 3) 1) 0 0 0 0)
                      | All_time \<Rightarrow> start);
             start = setHours z start 0 0 0 0
         in Some (start, endDate)))"

text \<open>\<^verbatim>\<open>getDateRange\<close> of supportTicketsService: a pair of \<open>null\<close>s for \<open>all_time\<close>.\<close>

definition supportTickets_getDateRange :: "time_zone \<Rightarrow> int \<Rightarrow> int \<Rightarrow> DateRange \<Rightarrow> int option \<times> int option" where
  "supportTickets_getDateRange z now1 now2 rng =
     (if rng = All_time then (None, None)
      else
        (let endDate = setHours z now1 23 59 59 999;
             start = now2;
             start = (case rng of
                        Last_7_days \<Rightarrow> setDate z start (getDate z start - 7)
                      | Last_30_days \<Rightarrow> setDate z start (getDate z start - 30)
                      | This_month \<Rightarrow> setHours z (setDate z start 1) 0 0 0 0
                      | This_quarter \<Rightarrow>
                          (let quarter = getMonth z start div 3
                           in setHours z (setMonth z start (quarter * 3) 1) 0 0 0 0)
                      | All_time \<Rightarrow> start);
             start = setHours z start 0 0 0 0
         in (Some start, Some endDate)))"

text \<open>
  \<^verbatim>\<open>getDateRange\<close> of dashboardService: \<open>all_time\<close> starts at
  \<^verbatim>\<open>setFullYear(2000, 0, 1)\<close>, and the last \<^verbatim>\<open>setHours(0, 0, 0, 0)\<close> is guarded.
\<close>

definition dashboard_getDateRange :: "time_zone \<Rightarrow> int \<Rightarrow> int \<Rightarrow> DateRange \<Rightarrow> int \<times> int" where
  "dashboard_getDateRange z now1 now2 rng =
     (let endDate = setHours z now1 23 59 59 999;
          start = now2;
          start = (case rng of
                     Last_7_days \<Rightarrow> setDate z start (getDate z start - 7)
                   | Last_30_days \<Rightarrow> setDate z start (getDate z start - 30)
                   | This_month \<Rightarrow> setHours z (setDate z start 1) 0 0 0 0
                   | This_quarter \<Rightarrow>
                       (let quarter = getMonth z start div 3
                        in setHours z (setMonth z start (quarter * 3) 1) 0 0 0 0)
                   | All_time \<Rightarrow> setHours z (setFullYear z start 2000 0 1) 0 0 0 0);
          start = (if rng \<noteq> All_time \<and> rng \<noteq> This_month \<and> rng \<noteq> This_quarter
                   then setHours z start 0 0 0 0 else start)
      in (start, endDate))"

text \<open>
  \<^verbatim>\<open>calculateDateRange\<close> of analyticsService. A custom date is given as the instant
  that \<^verbatim>\<open>new Date(customStartDate)\<close> denotes, \<open>None\<close> when the string is absent or
  empty.
\<close>

definition calculateDateRange :: "time_zone \<Rightarrow> int \<Rightarrow> int \<Rightarrow> AnalyticsRange \<Rightarrow> int option \<Rightarrow> int option \<Rightarrow> int \<times> int" where
  "calculateDateRange z now1 now2 rng customStartDate customEndDate =
     (case (rng, customStartDate, customEndDate) of
        (A_custom, Some s, Some e) \<Rightarrow> (setHours z s 0 0 0 0, setHours z e 23 59 59 999)
      | _ \<Rightarrow>
        (let endDate = setHours z now1 23 59 59 999;
             start = now2;
             start = (case rng of
                        A_last_7_days \<Rightarrow> setDate z start (getDate z start - 7)
                      | A_last_30_days \<Rightarrow> setDate z start (getDate z start - 30)
                      | A_this_month \<Rightarrow> setHours z (setDate z start 1) 0 0 0 0
                      | A_this_quarter \<Rightarrow>
                          (let quarter = getMonth z start div 3
                           in setHours z (setMonth z start (quarter * 3) 1) 0 0 0 0)
                      | A_custom \<Rightarrow> setDate z start (getDate z start - 7));
             start = setHours z start 0 0 0 0
         in (start, endDate)))"

text \<open>
  The range the specification describes, in local time: the end is 23:59:59.999 of the
  day of the clock reading, the start is 00:00:00.000 of the start day of the range.
  \<open>end_of_day z t\<close> is the instant of that end.
\<close>

definition end_of_day :: "time_zone \<Rightarrow> int \<Rightarrow> int" where
  "end_of_day z t = UTC z (MakeDate (Day (LocalTime z t)) (MakeTime 23 59 59 999))"

definition computed_start_day :: "int \<Rightarrow> DateRange \<Rightarrow> int" where
  "computed_start_day lt rng =
     (case rng of
        Last_7_days \<Rightarrow> Day lt - 7
      | Last_30_days \<Rightarrow> Day lt - 30
      | This_month \<Rightarrow> MakeDay (YearFromTime lt) (MonthFromTime lt) 1
      | This_quarter \<Rightarrow> MakeDay (YearFromTime lt) (3 * (MonthFromTime lt div 3)) 1
      | All_time \<Rightarrow> MakeDay 2000 0 1)"

definition as_DateRange :: "AnalyticsRange \<Rightarrow> DateRange" where
  "as_DateRange r =
     (case r of A_last_7_days \<Rightarrow> Last_7_days | A_last_30_days \<Rightarrow> Last_30_days
      | A_this_month \<Rightarrow> This_month | A_this_quarter \<Rightarrow> This_quarter
      | A_custom \<Rightarrow> Last_7_days)"

text \<open>
  A zone as America/Santiago in September 2024: four hours behind UTC until
  2024-09-08 04:00 UTC, three hours behind from then on, so that the local clock goes from
  23:59:59.999 of September 7 to 01:00:00.000 of September 8.
\<close>

definition santiago_2024 :: time_zone where
  "santiago_2024 = \<lparr>zone_offset = - 14400000, zone_changes = [(1725768000000, - 10800000)]\<rparr>"

text \<open>
  A zone as America/Nuuk in March 2024: two hours behind UTC until 2024-03-31 01:00 UTC,
  one hour behind from then on, so that the local clock goes from 22:59:59.999 of
  Saturday, March 30 to 00:00:00.000 of Sunday, March 31.
\<close>

definition nuuk_2024 :: time_zone where
  "nuuk_2024 = \<lparr>zone_offset = - 7200000, zone_changes = [(1711846800000, - 3600000)]\<rparr>"

section \<open>Arrays\<close>

text \<open>
  \<^verbatim>\<open>Array.prototype.sort(cmp)\<close> is stable; for a comparator that is a consistent
  ordering the result is the stable ordering, which insertion from the right builds.
\<close>

fun js_insert :: "('a \<Rightarrow> 'a \<Rightarrow> int) \<Rightarrow> 'a \<Rightarrow> 'a list \<Rightarrow> 'a list" where
  "js_insert cmp x [] = [x]"
| "js_insert cmp x (y # ys) = (if cmp x y \<le> 0 then x # y # ys else y # js_insert cmp x ys)"

definition js_sort :: "('a \<Rightarrow> 'a \<Rightarrow> int) \<Rightarrow> 'a list \<Rightarrow> 'a list" where
  "js_sort cmp xs = foldr (js_insert cmp) xs []"

section \<open>Support tickets (supportTicketsService)\<close>

text \<open>
  A document of \<open>supportThreads\<close>. Its \<open>lastMessageAt\<close> and \<open>createdAt\<close> are
  written by \<^verbatim>\<open>serverTimestamp()\<close> only: each is a Firestore timestamp (its
  milliseconds) or absent. The other fields are what \<^verbatim>\<open>mapThreadToTicket\<close> reads.
\<close>

record thread_doc =
  thread_id :: string
  thread_lastMessageAt :: "int option"
  thread_createdAt :: "int option"
  thread_fields :: jsval

text \<open>\<^verbatim>\<open>threadData.lastMessageAt || threadData.createdAt\<close>\<close>

definition thread_time :: "thread_doc \<Rightarrow> int option" where
  "thread_time d = (case thread_lastMessageAt d of Some t \<Rightarrow> Some t | None \<Rightarrow> thread_createdAt d)"

text \<open>
  The loop of \<^verbatim>\<open>getSupportTickets\<close>. \<^verbatim>\<open>mapThreadToTicket\<close> fetches the user and
  the messages and catches its own errors: it is a parameter that gives the ticket or
  \<open>None\<close> (\<open>null\<close>). A ticket is paired with its id, the thread's id.
\<close>

fun collect_tickets ::
  "(thread_doc \<Rightarrow> 't option) \<Rightarrow> int option \<Rightarrow> int option \<Rightarrow> thread_doc list \<Rightarrow> (string \<times> 't) list" where
  "collect_tickets mapThreadToTicket start endDate [] = []"
| "collect_tickets mapThreadToTicket start endDate (d # ds) =
     (let rest = collect_tickets mapThreadToTicket start endDate ds;
          pushed = (case mapThreadToTicket d of
                      Some ticket \<Rightarrow> (thread_id d, ticket) # rest
                    | None \<Rightarrow> rest)
      in case (start, endDate) of
           (Some s, Some e) \<Rightarrow>
             (case thread_time d of
                Some messageDate \<Rightarrow> if messageDate < s \<or> messageDate > e then rest else pushed
              | None \<Rightarrow> rest)
         | _ \<Rightarrow> pushed)"

text \<open>The comparator of the final sort: most recent first, threads without a time last.\<close>

definition ticket_order :: "thread_doc list \<Rightarrow> string \<times> 't \<Rightarrow> string \<times> 't \<Rightarrow> int" where
  "ticket_order docs a b =
     (case (find (\<lambda>d. thread_id d = fst a) docs, find (\<lambda>d. thread_id d = fst b) docs) of
        (Some aThread, Some bThread) \<Rightarrow>
          (case (thread_time aThread, thread_time bThread) of
             (None, None) \<Rightarrow> 0
           | (None, Some bTime) \<Rightarrow> 1
           | (Some aTime, None) \<Rightarrow> - 1
           | (Some aTime, Some bTime) \<Rightarrow> bTime - aTime)
      | _ \<Rightarrow> 0)"

definition getSupportTickets ::
  "(thread_doc \<Rightarrow> 't option) \<Rightarrow> time_zone \<Rightarrow> int \<Rightarrow> int \<Rightarrow> DateRange \<Rightarrow> thread_doc list
   \<Rightarrow> (string \<times> 't) list" where
  "getSupportTickets mapThreadToTicket z now1 now2 rng docs =
     (case supportTickets_getDateRange z now1 now2 rng of
        (start, endDate) \<Rightarrow>
          js_sort (ticket_order docs) (collect_tickets mapThreadToTicket start endDate docs))"

section \<open>Dashboard metrics (dashboardService)\<close>

text \<open>
  A Firestore range query \<^verbatim>\<open>where(f, ">=", start), where(f, "<=", end)\<close> matches the
  documents whose field \<open>f\<close> is a timestamp inside the range.
\<close>

definition ts_in_range :: "int \<Rightarrow> int \<Rightarrow> jsval \<Rightarrow> bool" where
  "ts_in_range s e v = (case toDate v of Some t \<Rightarrow> s \<le> t \<and> t \<le> e | None \<Rightarrow> False)"

text \<open>\<^verbatim>\<open>Set.add\<close>, the set kept in insertion order.\<close>

definition js_set_add :: "'a list \<Rightarrow> 'a \<Rightarrow> 'a list" where
  "js_set_add s x = (if x \<in> set s then s else s @ [x])"

text \<open>
  \<^verbatim>\<open>getActiveUsers(startDate, endDate)\<close>: two indexed queries, each of which may fail
  (\<open>q1_ok\<close>, \<open>q2_ok\<close>) and is then skipped; when they give no user, a scan of all
  users on \<^verbatim>\<open>updatedAt?.toDate?.() || createdAt?.toDate?.()\<close>. A failure outside the
  queries (\<open>users = None\<close>) gives 0.
\<close>

definition lastActive_in_range :: "int \<Rightarrow> int \<Rightarrow> jsval \<Rightarrow> bool" where
  "lastActive_in_range startDate endDate data =
     (let lastActive = (case toDate (get_field data ''updatedAt'') of
                          Some t \<Rightarrow> Some t
                        | None \<Rightarrow> toDate (get_field data ''createdAt''))
      in case lastActive of Some t \<Rightarrow> t \<ge> startDate \<and> t \<le> endDate | None \<Rightarrow> False)"

definition activeUserIds ::
  "bool \<Rightarrow> bool \<Rightarrow> (string \<times> jsval) list \<Rightarrow> int \<Rightarrow> int \<Rightarrow> string list" where
  "activeUserIds q1_ok q2_ok users startDate endDate =
     (let r1 = (if q1_ok
                then filter (\<lambda>(i, data). ts_in_range startDate endDate (get_field data ''updatedAt'')) users
                else []);
          r2 = (if q2_ok
                then filter (\<lambda>(i, data). ts_in_range startDate endDate (get_field data ''createdAt'')) users
                else []);
          userIds = fold (\<lambda>(i, data) s. js_set_add s i) (r1 @ r2) []
      in if length userIds = 0
         then fold (\<lambda>(i, data) s. if lastActive_in_range startDate endDate data
                                   then js_set_add s i else s) users userIds
         else userIds)"

definition getActiveUsers ::
  "bool \<Rightarrow> bool \<Rightarrow> (string \<times> jsval) list option \<Rightarrow> int \<Rightarrow> int \<Rightarrow> nat" where
  "getActiveUsers q1_ok q2_ok users startDate endDate =
     (case users of
        None \<Rightarrow> 0
      | Some us \<Rightarrow> length (activeUserIds q1_ok q2_ok us startDate endDate))"

text \<open>
  \<^verbatim>\<open>getLettersGenerated(startDate, endDate)\<close>: the \<open>letters\<close> collection when its
  query succeeds, otherwise the \<open>letters\<close> arrays of the user documents; an error in
  the fallback gives 0.
\<close>

fun count_letters :: "int \<Rightarrow> int \<Rightarrow> jsval list \<Rightarrow> js_error + nat" where
  "count_letters startDate endDate [] = Inr 0"
| "count_letters startDate endDate (letter # rest) =
     (if letter = JNull \<or> letter = JUndefined then Inl TypeError
      else
        (let letterDate = (case toDate (get_field letter ''createdAt'') of
                             Some t \<Rightarrow> Some t
                           | None \<Rightarrow> toDate (get_field letter ''generatedAt''));
             counted = (case letterDate of
                          Some t \<Rightarrow> t \<ge> startDate \<and> t \<le> endDate
                        | None \<Rightarrow> False)
         in case count_letters startDate endDate rest of
              Inl err \<Rightarrow> Inl err
            | Inr n \<Rightarrow> Inr (if counted then n + 1 else n)))"

fun count_users_letters :: "int \<Rightarrow> int \<Rightarrow> (string \<times> jsval) list \<Rightarrow> js_error + nat" where
  "count_users_letters startDate endDate [] = Inr 0"
| "count_users_letters startDate endDate ((i, data) # rest) =
     (let letters = js_or (js_or (get_field data ''letters'') (get_field data ''generatedLetters''))
                          (JArr []);
          here = (case letters of JArr ls \<Rightarrow> count_letters startDate endDate ls | _ \<Rightarrow> Inr 0)
      in case here of
           Inl err \<Rightarrow> Inl err
         | Inr n \<Rightarrow>
             (case count_users_letters startDate endDate rest of
                Inl err \<Rightarrow> Inl err
              | Inr m \<Rightarrow> Inr (n + m)))"

definition getLettersGenerated ::
  "jsval list option \<Rightarrow> (string \<times> jsval) list option \<Rightarrow> int \<Rightarrow> int \<Rightarrow> nat" where
  "getLettersGenerated lettersCollection users startDate endDate =
     (case lettersCollection of
        Some docs \<Rightarrow>
          length (filter (\<lambda>d. ts_in_range startDate endDate (get_field d ''createdAt'')) docs)
      | None \<Rightarrow>
          (case users of
             None \<Rightarrow> 0
           | Some us \<Rightarrow>
               (case count_users_letters startDate endDate us of
                  Inl err \<Rightarrow> 0
                | Inr n \<Rightarrow> n)))"

text \<open>Documents whose timestamps, where present, are all before an instant.\<close>

definition created_before :: "int \<Rightarrow> jsval \<Rightarrow> bool" where
  "created_before s d = (case toDate (get_field d ''createdAt'') of Some t \<Rightarrow> t < s | None \<Rightarrow> False)"

definition dated_before :: "int \<Rightarrow> jsval \<Rightarrow> bool" where
  "dated_before s data =
     ((case toDate (get_field data ''updatedAt'') of Some t \<Rightarrow> t < s | None \<Rightarrow> True)
      \<and> (case toDate (get_field data ''createdAt'') of Some t \<Rightarrow> t < s | None \<Rightarrow> True))"

section \<open>Strings\<close>

text \<open>
  A string is the sequence of its code units, each below 256 (the Latin-1 range).
  \<^verbatim>\<open>toLowerCase\<close> lowers every cased letter of that range: A to Z, and the accented
  capitals from 0xC0 to 0xDE except the multiplication sign 0xD7, each to the letter 32
  places on. \<^verbatim>\<open>trim\<close> strips the white space of that range, and a template literal
  prints an integer in decimal.
\<close>

definition lower_char :: "char \<Rightarrow> char" where
  "lower_char c =
     (let n = (of_char c :: nat)
      in if (65 \<le> n \<and> n \<le> 90) \<or> (192 \<le> n \<and> n \<le> 214) \<or> (216 \<le> n \<and> n \<le> 222)
         then char_of (n + 32) else c)"

definition toLowerCase :: "string \<Rightarrow> string" where
  "toLowerCase s = map lower_char s"

definition is_space :: "char \<Rightarrow> bool" where
  "is_space c = (c \<in> set [CHR '' '', CHR 0x09, CHR 0x0A, CHR 0x0B, CHR 0x0C, CHR 0x0D, CHR 0xA0])"

definition trim :: "string \<Rightarrow> string" where
  "trim s = rev (dropWhile is_space (rev (dropWhile is_space s)))"

definition digit_char :: "nat \<Rightarrow> char" where
  "digit_char n = ''0123456789'' ! (n mod 10)"

fun show_nat :: "nat \<Rightarrow> string" where
  "show_nat n = (if n < 10 then [digit_char n] else show_nat (n div 10) @ [digit_char n])"

declare show_nat.simps [simp del]

definition show_int :: "int \<Rightarrow> string" where
  "show_int i = (if i < 0 then CHR ''-'' # show_nat (nat (- i)) else show_nat (nat i))"

text \<open>\<^verbatim>\<open>Math.round\<close>: the nearest integer, a half rounding up.\<close>

definition Math_round :: "rat \<Rightarrow> int" where
  "Math_round x = \<lfloor>x + 1 / 2\<rfloor>"

section \<open>Membership distribution (analyticsService)\<close>

text \<open>
  The three tier fields of a user document, each a string or absent (the schema's tier
  enum); an empty string is falsy.
\<close>

record member_doc =
  doc_membershipTier :: "string option"
  doc_tier :: "string option"
  doc_membership :: "string option"

definition str_or :: "string option \<Rightarrow> string option \<Rightarrow> string option" where
  "str_or a b = (case a of Some s \<Rightarrow> (if s \<noteq> [] then Some s else b) | None \<Rightarrow> b)"

text \<open>\<^verbatim>\<open>data.membershipTier || data.tier || data.membership || "core"\<close>\<close>

definition analytics_user_tier :: "member_doc \<Rightarrow> string" where
  "analytics_user_tier d =
     (case str_or (str_or (str_or (doc_membershipTier d) (doc_tier d)) (doc_membership d))
                  (Some ''core'') of
        Some s \<Rightarrow> s | None \<Rightarrow> [])"

text \<open>
  The quotient and the product of the percentage are IEEE 754 doubles. \<open>fl x\<close> is the
  double nearest to a real \<open>x\<close> with \<open>0 \<le> x < 2 ^ 1024\<close>, a tie going to the even
  significand: with \<open>2 ^ e \<le> x < 2 ^ (e + 1)\<close> the doubles around \<open>x\<close> are the multiples of
  \<open>2 ^ (e - 52)\<close>, and of \<open>2 ^ (- 1074)\<close> below \<open>2 ^ (- 1022)\<close>. \<open>bitlen p\<close> is the number of
  binary digits of \<open>p\<close>.
\<close>

definition pow2 :: "int \<Rightarrow> rat" where
  "pow2 e = (if 0 \<le> e then 2 ^ nat e else 1 / 2 ^ nat (- e))"

definition floor_log2 :: "rat \<Rightarrow> int" where
  "floor_log2 x =
     (case quotient_of x of (p, q) \<Rightarrow>
        (let b = bitlen p - bitlen q
         in if pow2 b \<le> x then b else b - 1))"

definition round_half_even :: "rat \<Rightarrow> int" where
  "round_half_even q =
     (let f = \<lfloor>q\<rfloor>; r = q - of_int f
      in if r < 1 / 2 then f
         else if 1 / 2 < r then f + 1
         else if even f then f else f + 1)"

definition fl :: "rat \<Rightarrow> rat" where
  "fl x =
     (if x \<le> 0 then 0
      else (let e = max (floor_log2 x) (- 1022);
                ulp = pow2 (e - 52)
            in of_int (round_half_even (x / ulp)) * ulp))"

text \<open>
  \<open>byTier\<close> and \<open>tierMapping\<close> are plain objects: besides their own properties, kept
  here as a list in insertion order, \<open>o[k]\<close> finds what \<^verbatim>\<open>Object.prototype\<close> has. That
  is a function under each of the names below, and \<^verbatim>\<open>Object.prototype\<close> itself under
  \<open>__proto__\<close>; all of them are truthy.
\<close>

definition Object_prototype_functions :: "string list" where
  "Object_prototype_functions =
     [''constructor'', ''hasOwnProperty'', ''isPrototypeOf'', ''propertyIsEnumerable'',
      ''toLocaleString'', ''toString'', ''valueOf'', ''__defineGetter__'', ''__defineSetter__'',
      ''__lookupGetter__'', ''__lookupSetter__'']"

definition inherited :: "string \<Rightarrow> bool" where
  "inherited k = (k = ''__proto__'' \<or> k \<in> set Object_prototype_functions)"

text \<open>
  A property of \<open>byTier\<close>: a count, or a string. \<^verbatim>\<open>(byTier[tier] || 0) + 1\<close> adds one
  to a count. On an inherited function it is the source text of the function followed by
  \<open>1\<close>, and on a string the string followed by \<open>1\<close>: \<open>Text\<close> stands for these strings,
  none of which reads as a number.
\<close>

datatype tier_count = Count nat | Text

definition plus_one :: "tier_count \<Rightarrow> tier_count" where
  "plus_one c = (case c of Count n \<Rightarrow> Count (n + 1) | Text \<Rightarrow> Text)"

text \<open>\<^verbatim>\<open>o[k] = v\<close> on the own properties: a new key goes last.\<close>

fun set_own :: "(string \<times> 'v) list \<Rightarrow> string \<Rightarrow> 'v \<Rightarrow> (string \<times> 'v) list" where
  "set_own [] k v = [(k, v)]"
| "set_own ((k', v') # rest) k v =
     (if k' = k then (k', v) # rest else (k', v') # set_own rest k v)"

text \<open>
  \<^verbatim>\<open>byTier[tier] = (byTier[tier] || 0) + 1\<close>. Assigning a string to \<open>__proto__\<close> does
  nothing: that name never becomes a property of \<open>byTier\<close>.
\<close>

definition bump :: "(string \<times> tier_count) list \<Rightarrow> string \<Rightarrow> (string \<times> tier_count) list" where
  "bump byTier tier =
     (case map_of byTier tier of
        Some c \<Rightarrow> set_own byTier tier (plus_one c)
      | None \<Rightarrow>
          if tier = ''__proto__'' then byTier
          else if inherited tier then set_own byTier tier Text
          else set_own byTier tier (Count (0 + 1)))"

text \<open>
  \<^verbatim>\<open>Object.entries\<close> lists the array-index keys first, in ascending numeric order,
  then the other keys in insertion order.
\<close>

definition is_digit :: "char \<Rightarrow> bool" where
  "is_digit c = (c \<in> set ''0123456789'')"

definition digit_value :: "char \<Rightarrow> int" where
  "digit_value c = (case map_of (zip ''0123456789'' [0 ..< 10]) c of Some n \<Rightarrow> int n | None \<Rightarrow> 0)"

definition decimal_value :: "string \<Rightarrow> int" where
  "decimal_value s = foldl (\<lambda>a c. 10 * a + digit_value c) 0 s"

definition is_array_index :: "string \<Rightarrow> bool" where
  "is_array_index s =
     (s \<noteq> [] \<and> list_all is_digit s \<and> (s = ''0'' \<or> hd s \<noteq> CHR ''0'')
      \<and> decimal_value s < 4294967295)"

definition Object_entries :: "(string \<times> 'v) list \<Rightarrow> (string \<times> 'v) list" where
  "Object_entries kvs =
     sort_key (\<lambda>(k, v). decimal_value k) (filter (\<lambda>(k, v). is_array_index k) kvs)
     @ filter (\<lambda>(k, v). \<not> is_array_index k) kvs"

text \<open>
  \<^verbatim>\<open>getMembersByTier()\<close> of analyticsService; \<open>None\<close> is a failed fetch, which the
  function catches.
\<close>

record members_by_tier =
  mbt_total :: nat
  mbt_byTier :: "(string \<times> tier_count) list"
  mbt_percentage :: int

definition analytics_getMembersByTier :: "member_doc list option \<Rightarrow> members_by_tier" where
  "analytics_getMembersByTier snapshot =
     (case snapshot of
        None \<Rightarrow> \<lparr>mbt_total = 0, mbt_byTier = [], mbt_percentage = 0\<rparr>
      | Some docs \<Rightarrow>
          (let tiers = map analytics_user_tier docs;
               byTier = fold (\<lambda>tier acc. bump acc tier) tiers [];
               tot = length tiers;
               membersWithTier = length (filter (\<lambda>tier. tier \<noteq> []) tiers);
               percentage = (if tot > 0
                             then Math_round (fl (fl (of_nat membersWithTier / of_nat tot) * 100))
                             else 0)
           in \<lparr>mbt_total = tot, mbt_byTier = byTier, mbt_percentage = percentage\<rparr>))"

text \<open>
  A point of the distribution. Its value is a number or \<open>NaN\<close> (\<open>None\<close>), its colour a
  string or \<open>undefined\<close> (\<open>None\<close>).
\<close>

record MembershipDistributionPoint =
  point_label :: string
  point_value :: "int option"
  point_color :: "string option"

text \<open>What a template literal and \<^verbatim>\<open>toString()\<close> print.\<close>

definition show_number :: "int option \<Rightarrow> string" where
  "show_number v = (case v of Some i \<Rightarrow> show_int i | None \<Rightarrow> ''NaN'')"

definition show_string :: "string option \<Rightarrow> string" where
  "show_string v = (case v of Some s \<Rightarrow> s | None \<Rightarrow> ''undefined'')"

text \<open>
  \<^verbatim>\<open>getMembershipDistribution()\<close>. \<open>tierMapping k\<close> is what \<^verbatim>\<open>tierMapping[k]\<close>
  finds, as the pair of its \<open>label\<close> and its \<open>color\<close>: those of the three own entries,
  and \<open>undefined\<close> twice for what is inherited. \<open>distribution_point\<close> is the body of the
  \<^verbatim>\<open>forEach\<close> over the entries; a count that is a string divides to \<open>NaN\<close>.
\<close>

definition tierMapping :: "string \<Rightarrow> (string option \<times> string option) option" where
  "tierMapping k =
     (if k = ''pro'' then Some (Some ''Pro'', Some ''#D4A317'')
      else if k = ''advantage'' then Some (Some ''Advantage'', Some ''#A0761A'')
      else if k = ''core'' then Some (Some ''Core'', Some ''#60460F'')
      else if inherited k then Some (None, None)
      else None)"

definition distribution_point ::
  "nat \<Rightarrow> string \<times> tier_count \<Rightarrow> MembershipDistributionPoint" where
  "distribution_point tot entry =
     (case entry of (tier, cnt) \<Rightarrow>
        (let normalizedTier = trim (toLowerCase tier);
             mapping = (case tierMapping normalizedTier of
                          Some m \<Rightarrow> m | None \<Rightarrow> (Some tier, Some ''#9CA3AF''));
             percentage = (case cnt of
                             Count n \<Rightarrow> Some (Math_round (fl (fl (of_nat n / of_nat tot) * 100)))
                           | Text \<Rightarrow> None)
         in \<lparr>point_label = show_string (fst mapping) @ '' ('' @ show_number percentage @ ''%)'',
             point_value = percentage,
             point_color = snd mapping\<rparr>))"

text \<open>
  The comparator of the final sort, \<^verbatim>\<open>b.value - a.value\<close>; a \<open>NaN\<close> difference counts
  as zero.
\<close>

definition by_value :: "MembershipDistributionPoint \<Rightarrow> MembershipDistributionPoint \<Rightarrow> int" where
  "by_value a b =
     (case (point_value b, point_value a) of (Some x, Some y) \<Rightarrow> x - y | _ \<Rightarrow> 0)"

definition getMembershipDistribution :: "member_doc list option \<Rightarrow> MembershipDistributionPoint list" where
  "getMembershipDistribution snapshot =
     (let result = analytics_getMembersByTier snapshot;
          tot = (if mbt_total result \<noteq> 0 then mbt_total result else 1);
          distribution = map (distribution_point tot) (Object_entries (mbt_byTier result))
      in js_sort by_value distribution)"

text \<open>A collection of \<open>n\<close> users of one tier.\<close>

definition members_of :: "string \<Rightarrow> nat \<Rightarrow> member_doc list" where
  "members_of tier n =
     replicate n \<lparr>doc_membershipTier = Some tier, doc_tier = None, doc_membership = None\<rparr>"

section \<open>CSV export (ExportDataModal, DashboardPage)\<close>

text \<open>The double quote, the comma and the line feed.\<close>

definition dq :: char where "dq = CHR 0x22"
definition comma :: char where "comma = CHR '',''"
definition newline :: char where "newline = CHR 0x0A"

text \<open>\<^verbatim>\<open>Array.prototype.join(sep)\<close>\<close>

fun join :: "string \<Rightarrow> string list \<Rightarrow> string" where
  "join sep [] = []"
| "join sep [x] = x"
| "join sep (x # y # ys) = x @ sep @ join sep (y # ys)"

text \<open>
  What \<^verbatim>\<open>handleExport\<close> has fetched when it builds the CSV: the daily and weekly
  values, the membership distribution, the engagement counts, the top articles, the
  range and the ISO time of the export.
\<close>

record TopArticle =
  article_title :: string
  article_views :: int

record SystemEngagement =
  eng_imports :: int
  eng_letters :: int
  eng_disputes :: int
  eng_total :: int

record export_data =
  includeUsers :: bool
  includeDisputes :: bool
  includeContent :: bool
  dauData :: "int list"
  wauData :: "int list"
  membershipData :: "MembershipDistributionPoint list"
  engagement :: SystemEngagement
  articles :: "TopArticle list"
  range_value :: string
  exported_at :: string

definition average :: "int list \<Rightarrow> int" where
  "average vs = (if length vs > 0
                 then Math_round (of_int (sum_list vs) / of_nat (length vs)) else 0)"

text \<open>
  The arrays that \<^verbatim>\<open>handleExport\<close> joins with commas, one for each record of the
  export, and the CSV text: the rows joined with line feeds. No field is quoted.
\<close>

definition handleExport_rows :: "export_data \<Rightarrow> string list list" where
  "handleExport_rows d =
     [[''dataset'', ''id'', ''label'', ''value'']]
     @ (if includeUsers d then
          [[''users'', ''dau_total'', ''Daily Active Users (Total)'', show_int (sum_list (dauData d))],
           [''users'', ''dau_avg'', ''Daily Active Users (Average)'', show_int (average (dauData d))],
           [''users'', ''wau_total'', ''Weekly Active Users (Total)'', show_int (sum_list (wauData d))],
           [''users'', ''wau_avg'', ''Weekly Active Users (Average)'', show_int (average (wauData d))]]
          @ map (\<lambda>(idx, tier). [''membership'', ''tier_'' @ show_nat (idx + 1),
                                  point_label tier, show_number (point_value tier)])
                (zip [0 ..< length (membershipData d)] (membershipData d))
        else [])
     @ (if includeDisputes d then
          [[''engagement'', ''imports'', ''Credit Report Imports'', show_int (eng_imports (engagement d))],
           [''engagement'', ''letters'', ''Letters Generated'', show_int (eng_letters (engagement d))],
           [''engagement'', ''disputes'', ''Disputes Created'', show_int (eng_disputes (engagement d))],
           [''engagement'', ''total'', ''Total Actions'', show_int (eng_total (engagement d))]]
        else [])
     @ (if includeContent d then
          map (\<lambda>(idx, article). [''content'', ''article_'' @ show_nat (idx + 1),
                                    article_title article, show_int (article_views article)])
              (zip [0 ..< length (articles d)] (articles d))
        else [])
     @ [[[], [], ''range'', range_value d],
        [[], [], ''exported_at'', exported_at d]]"

definition handleExport_csv :: "export_data \<Rightarrow> string" where
  "handleExport_csv d = join [newline] (map (join [comma]) (handleExport_rows d))"

text \<open>
  \<^verbatim>\<open>handleGenerateReport\<close>: each entry of \<open>statsData\<close> has its value already formatted
  (\<^verbatim>\<open>formatNumber\<close>, or \<^verbatim>\<open>String\<close> with the suffix) and its delta printed by
  \<^verbatim>\<open>toFixed(1)\<close>. Only the label is quoted, with
  \<^verbatim>\<open>String(s.label).replace(/"/g, '""')\<close>; \<open>report_record\<close> is the record a line
  stands for.
\<close>

definition replace_quotes :: "string \<Rightarrow> string" where
  "replace_quotes s = concat (map (\<lambda>c. if c = dq then [dq, dq] else [c]) s)"

record stat_entry =
  stat_id :: string
  stat_label :: string
  stat_value :: string
  stat_suffix :: "string option"
  stat_delta :: string

definition report_record :: "string \<Rightarrow> stat_entry \<Rightarrow> string list" where
  "report_record rng s =
     [stat_id s, stat_label s,
      stat_value s @ (case stat_suffix s of Some x \<Rightarrow> x | None \<Rightarrow> []),
      stat_delta s, rng]"

definition report_line :: "string \<Rightarrow> stat_entry \<Rightarrow> string" where
  "report_line rng s =
     join [comma]
       [stat_id s,
        [dq] @ replace_quotes (stat_label s) @ [dq],
        stat_value s @ (case stat_suffix s of Some x \<Rightarrow> x | None \<Rightarrow> []),
        stat_delta s,
        rng]"

definition handleGenerateReport_csv :: "string \<Rightarrow> stat_entry list \<Rightarrow> string" where
  "handleGenerateReport_csv rng statsData =
     join [newline] (join [comma] [''id'', ''label'', ''value'', ''delta'', ''range'']
                     # map (report_line rng) statsData)"

text \<open>\<^verbatim>\<open>num.toLocaleString("en-US")\<close> of a count: the digits grouped in threes.\<close>

fun group_thousands :: "string \<Rightarrow> string" where
  "group_thousands (a # b # c # d # rest) = a # b # c # comma # group_thousands (d # rest)"
| "group_thousands s = s"

definition formatNumber :: "nat \<Rightarrow> string" where
  "formatNumber n = rev (group_thousands (rev (show_nat n)))"

text \<open>
  A standard CSV reader (RFC 4180): records end at a line feed, fields at a comma; a
  field that starts with a double quote runs to the closing quote, a doubled quote
  inside standing for one; a quote inside an unquoted field is kept as it is.
\<close>

datatype csv_state = FieldStart | Unquoted | Quoted | QuoteInQuoted

fun parse_csv_from ::
  "csv_state \<Rightarrow> string \<Rightarrow> string list \<Rightarrow> string list list \<Rightarrow> string \<Rightarrow> string list list" where
  "parse_csv_from st fld row rows [] = rev (rev (rev fld # row) # rows)"
| "parse_csv_from st fld row rows (c # cs) =
     (case st of
        FieldStart \<Rightarrow>
          (if c = dq then parse_csv_from Quoted [] row rows cs
           else if c = comma then parse_csv_from FieldStart [] ([] # row) rows cs
           else if c = newline then parse_csv_from FieldStart [] [] (rev ([] # row) # rows) cs
           else parse_csv_from Unquoted [c] row rows cs)
      | Unquoted \<Rightarrow>
          (if c = comma then parse_csv_from FieldStart [] (rev fld # row) rows cs
           else if c = newline then parse_csv_from FieldStart [] [] (rev (rev fld # row) # rows) cs
           else parse_csv_from Unquoted (c # fld) row rows cs)
      | Quoted \<Rightarrow>
          (if c = dq then parse_csv_from QuoteInQuoted fld row rows cs
           else parse_csv_from Quoted (c # fld) row rows cs)
      | QuoteInQuoted \<Rightarrow>
          (if c = dq then parse_csv_from Quoted (dq # fld) row rows cs
           else if c = comma then parse_csv_from FieldStart [] (rev fld # row) rows cs
           else if c = newline then parse_csv_from FieldStart [] [] (rev (rev fld # row) # rows) cs
           else parse_csv_from Unquoted (c # fld) row rows cs))"

definition parse_csv :: "string \<Rightarrow> string list list" where
  "parse_csv s = parse_csv_from FieldStart [] [] [] s"

text \<open>
  An export of the top articles alone, the one article titled
  \<^verbatim>\<open>Credit, "Repair" 101\<close> with 3 views; a report entry whose value is 1420 users; and
  a report entry whose label has a comma and quotes.
\<close>

definition sample_export :: export_data where
  "sample_export =
     \<lparr>includeUsers = False, includeDisputes = False, includeContent = True,
      dauData = [], wauData = [], membershipData = [],
      engagement = \<lparr>eng_imports = 0, eng_letters = 0, eng_disputes = 0, eng_total = 0\<rparr>,
      articles = [\<lparr>article_title = ''Credit, '' @ [dq] @ ''Repair'' @ [dq] @ '' 101'',
                   article_views = 3\<rparr>],
      range_value = ''last_7_days'', exported_at = ''2026-01-01T00:00:00.000Z''\<rparr>"

definition sample_stat :: stat_entry where
  "sample_stat =
     \<lparr>stat_id = ''total_users'', stat_label = ''Total Users'', stat_value = formatNumber 1420,
      stat_suffix = None, stat_delta = ''0.0''\<rparr>"

definition quoted_stat :: stat_entry where
  "quoted_stat =
     \<lparr>stat_id = ''x'', stat_label = ''Say '' @ [dq] @ ''hi'' @ [dq] @ '', then'',
      stat_value = ''7'', stat_suffix = Some ''%'', stat_delta = ''0.0''\<rparr>"

section \<open>Top articles (analyticsService)\<close>




text \<open>\<^verbatim>\<open>a || d\<close> for a string or absent \<open>a\<close> and a default \<open>d\<close>\<close>

definition str_default :: "string option \<Rightarrow> string \<Rightarrow> string" where
  "str_default a d = (case a of Some s \<Rightarrow> (if s \<noteq> [] then s else d) | None \<Rightarrow> d)"


















section \<open>Users (userService)\<close>

datatype UserTier = Core | Advantage | Pro
datatype UserStatus = Active | Inactive

definition tier_name :: "UserTier \<Rightarrow> string" where
  "tier_name t = (case t of Core \<Rightarrow> ''Core'' | Advantage \<Rightarrow> ''Advantage'' | Pro \<Rightarrow> ''Pro'')"

definition status_name :: "UserStatus \<Rightarrow> string" where
  "status_name s = (case s of Active \<Rightarrow> ''active'' | Inactive \<Rightarrow> ''inactive'')"

definition mapTierToFirestore :: "UserTier \<Rightarrow> string" where
  "mapTierToFirestore t = toLowerCase (tier_name t)"

text \<open>\<^verbatim>\<open>s.split(sep)\<close> for a one-character separator.\<close>

fun split_from :: "char \<Rightarrow> string \<Rightarrow> string \<Rightarrow> string list" where
  "split_from sep cur [] = [rev cur]"
| "split_from sep cur (c # cs) =
     (if c = sep then rev cur # split_from sep [] cs else split_from sep (c # cur) cs)"

definition split :: "char \<Rightarrow> string \<Rightarrow> string list" where
  "split sep s = split_from sep [] s"

text \<open>\<^verbatim>\<open>(parts[i] || undefined) || null\<close>\<close>

definition part_or_null :: "string list \<Rightarrow> nat \<Rightarrow> jsval" where
  "part_or_null parts i = (if i < length parts \<and> parts ! i \<noteq> [] then JStr (parts ! i) else JNull)"

text \<open>
  The argument of \<^verbatim>\<open>createUser\<close>; \<open>cu_dateJoined\<close> is the instant that
  \<^verbatim>\<open>new Date(userData.dateJoined)\<close> denotes, \<open>None\<close> when the string is absent, empty or
  no date. A thrown value is read through its \<open>code\<close> and \<open>message\<close>.
\<close>

record CreateUserData =
  cu_name :: string
  cu_email :: string
  cu_password :: string
  cu_tier :: UserTier
  cu_status :: UserStatus
  cu_phone :: "string option"
  cu_address :: "string option"
  cu_dateJoined :: "int option"

record js_exception =
  exn_code :: "string option"
  exn_message :: "string option"

text \<open>The calls that reach the collaborators, in order.\<close>

datatype effect =
    CreateAuthUser string string
  | SetDoc string string jsval

text \<open>The document that \<^verbatim>\<open>setDoc\<close> writes; \<open>now\<close> is \<^verbatim>\<open>Timestamp.now()\<close>.\<close>

definition user_document :: "string \<Rightarrow> int \<Rightarrow> CreateUserData \<Rightarrow> jsval" where
  "user_document uid now userData =
     (let parts = (case cu_address userData of
                     None \<Rightarrow> []
                   | Some a \<Rightarrow> if a = [] then [] else map trim (split comma a))
      in JObj
          [(''uid'', JStr uid),
           (''name'', JStr (cu_name userData)),
           (''email'', JStr (cu_email userData)),
           (''phone'', (case cu_phone userData of
                          Some p \<Rightarrow> if p \<noteq> [] then JStr p else JNull | None \<Rightarrow> JNull)),
           (''address'', part_or_null parts 0),
           (''city'', part_or_null parts 1),
           (''state'', part_or_null parts 2),
           (''zipCode'', part_or_null parts 3),
           (''membershipTier'', JStr (mapTierToFirestore (cu_tier userData))),
           (''isActive'', JBool (cu_status userData = Active)),
           (''status'', JStr (status_name (cu_status userData))),
           (''createdAt'', JTimestamp (case cu_dateJoined userData of Some t \<Rightarrow> t | None \<Rightarrow> now)),
           (''updatedAt'', JTimestamp now),
           (''documentsCompleted'', JBool False)])"

text \<open>The \<^verbatim>\<open>catch\<close> block: the message of the \<open>Error\<close> that \<^verbatim>\<open>createUser\<close> throws.\<close>

definition createUser_error :: "js_exception \<Rightarrow> string" where
  "createUser_error error =
     (if exn_code error = Some ''auth/email-already-in-use''
        then ''An account already exists with this email address.''
      else if exn_code error = Some ''auth/invalid-email'' then ''Invalid email address.''
      else if exn_code error = Some ''auth/weak-password''
        then ''Password should be at least 6 characters.''
      else str_default (exn_message error) ''Failed to create user'')"

text \<open>
  \<^verbatim>\<open>createUser(userData)\<close>. \<open>auth_outcome\<close> is what
  \<^verbatim>\<open>createUserWithEmailAndPassword\<close> does (it throws, or gives the uid) and
  \<open>write_outcome\<close> what \<^verbatim>\<open>setDoc\<close> does (\<open>Some\<close> when it throws). The result is the
  calls made and the thrown message (\<open>Inl\<close>) or the returned uid.
\<close>

definition createUser ::
  "js_exception + string \<Rightarrow> js_exception option \<Rightarrow> int \<Rightarrow> CreateUserData
   \<Rightarrow> effect list \<times> (string + string)" where
  "createUser auth_outcome write_outcome now userData =
     (case auth_outcome of
        Inl error \<Rightarrow>
          ([CreateAuthUser (cu_email userData) (cu_password userData)],
           Inl (createUser_error error))
      | Inr uid \<Rightarrow>
          (let effects = [CreateAuthUser (cu_email userData) (cu_password userData),
                          SetDoc ''users'' uid (user_document uid now userData)]
           in case write_outcome of
                Some error \<Rightarrow> (effects, Inl (createUser_error error))
              | None \<Rightarrow> (effects, Inr uid)))"

text \<open>
  The thrown message as the specification words it: the mapped string for the three known
  codes, the raw message for every other code.
\<close>

definition createUser_error_as_specified :: "js_exception \<Rightarrow> string" where
  "createUser_error_as_specified error =
     (if exn_code error = Some ''auth/email-already-in-use''
        then ''An account already exists with this email address.''
      else if exn_code error = Some ''auth/invalid-email'' then ''Invalid email address.''
      else if exn_code error = Some ''auth/weak-password''
        then ''Password should be at least 6 characters.''
      else (case exn_message error of Some m \<Rightarrow> m | None \<Rightarrow> []))"

definition known_auth_code :: "string option \<Rightarrow> bool" where
  "known_auth_code c =
     (c = Some ''auth/email-already-in-use'' \<or> c = Some ''auth/invalid-email''
      \<or> c = Some ''auth/weak-password'')"

definition sample_user :: CreateUserData where
  "sample_user =
     \<lparr>cu_name = ''Ann Lee'', cu_email = ''ann@example.com'', cu_password = ''Secret12'',
      cu_tier = Pro, cu_status = Active, cu_phone = None,
      cu_address = Some ''1 Main St, Springfield, IL'', cu_dateJoined = None\<rparr>"

text \<open>
  A row of the users table, as \<^verbatim>\<open>mapFirestoreUserToUser\<close> gives it, and the parameters
  of \<^verbatim>\<open>getUsers\<close>; an absent filter is \<open>None\<close>, the filter \<open>"all"\<close> is \<open>Every\<close>.
\<close>

record User =
  user_id :: string
  user_name :: string
  user_email :: string
  user_tier :: UserTier
  user_status :: UserStatus
  user_dateJoined :: string
  user_lastActivity :: string

datatype 'a filter_choice = Every | Only 'a

datatype SortBy = Date_joined | Last_activity

record GetUsersParams =
  page :: int
  pageSize :: int
  search :: "string option"
  tierFilter :: "UserTier filter_choice option"
  statusFilter :: "UserStatus filter_choice option"
  sortBy :: "SortBy option"

record GetUsersResult =
  res_users :: "User list"
  res_total :: int
  res_hasMore :: bool

text \<open>\<^verbatim>\<open>s.includes(sub)\<close>\<close>

fun starts_with :: "string \<Rightarrow> string \<Rightarrow> bool" where
  "starts_with s [] = True"
| "starts_with [] (c # cs) = False"
| "starts_with (x # xs) (c # cs) = (x = c \<and> starts_with xs cs)"

fun str_includes :: "string \<Rightarrow> string \<Rightarrow> bool" where
  "str_includes [] sub = starts_with [] sub"
| "str_includes (x # xs) sub = (starts_with (x # xs) sub \<or> str_includes xs sub)"

text \<open>\<^verbatim>\<open>Array.prototype.slice(start, end)\<close>: a negative index counts from the end.\<close>

definition js_slice :: "'a list \<Rightarrow> int \<Rightarrow> int \<Rightarrow> 'a list" where
  "js_slice xs start endIndex =
     (let len = int (length xs);
          k = (if start < 0 then max (len + start) 0 else min start len);
          final = (if endIndex < 0 then max (len + endIndex) 0 else min endIndex len)
      in take (nat (final - k)) (drop (nat k) xs))"

text \<open>\<^verbatim>\<open>search && search.trim()\<close>\<close>

definition search_applies :: "string option \<Rightarrow> bool" where
  "search_applies s = (case s of Some x \<Rightarrow> x \<noteq> [] \<and> trim x \<noteq> [] | None \<Rightarrow> False)"

text \<open>
  \<^verbatim>\<open>getUsers(params)\<close>. \<open>snapshot\<close> is the result of the ordered query, mapped to
  rows: \<open>None\<close> when the query or the mapping throws, which the function catches.
\<close>

definition getUsers :: "User list option \<Rightarrow> GetUsersParams \<Rightarrow> GetUsersResult" where
  "getUsers snapshot params =
     (case snapshot of
        None \<Rightarrow> \<lparr>res_users = [], res_total = 0, res_hasMore = False\<rparr>
      | Some docs \<Rightarrow>
          (let allUsers = docs;
               allUsers = (if search_applies (search params) then
                             (let searchLower = trim (toLowerCase (case search params of
                                                                     Some x \<Rightarrow> x | None \<Rightarrow> []))
                              in filter (\<lambda>user. str_includes (toLowerCase (user_name user)) searchLower
                                               \<or> str_includes (toLowerCase (user_email user)) searchLower)
                                        allUsers)
                           else allUsers);
               allUsers = (case tierFilter params of
                             Some (Only t) \<Rightarrow> filter (\<lambda>user. user_tier user = t) allUsers
                           | _ \<Rightarrow> allUsers);
               allUsers = (case statusFilter params of
                             Some (Only s) \<Rightarrow> filter (\<lambda>user. user_status user = s) allUsers
                           | _ \<Rightarrow> allUsers);
               tot = int (length allUsers);
               startIndex = (page params - 1) * pageSize params;
               endIndex = startIndex + pageSize params;
               paginatedUsers = js_slice allUsers startIndex endIndex;
               hasMore = (endIndex < tot)
           in \<lparr>res_users = paginatedUsers, res_total = tot, res_hasMore = hasMore\<rparr>))"

text \<open>
  A user passes the supplied search, tier and status filters. A search is supplied when
  it has a character that is not white space; a user passes it when the search, trimmed
  and in lower case, occurs in the name or in the email address in lower case.
  \<open>occurs_in sub s\<close>: the string \<open>sub\<close> is read in \<open>s\<close> from some position on.
\<close>

definition occurs_in :: "string \<Rightarrow> string \<Rightarrow> bool" where
  "occurs_in sub s = list_ex (\<lambda>i. take (length sub) (drop i s) = sub) [0 ..< Suc (length s)]"

definition passes_search :: "string option \<Rightarrow> User \<Rightarrow> bool" where
  "passes_search s user =
     (case s of
        None \<Rightarrow> True
      | Some x \<Rightarrow>
          list_all is_space x
          \<or> occurs_in (trim (toLowerCase x)) (toLowerCase (user_name user))
          \<or> occurs_in (trim (toLowerCase x)) (toLowerCase (user_email user)))"

definition passes_filters :: "GetUsersParams \<Rightarrow> User \<Rightarrow> bool" where
  "passes_filters params user =
     (passes_search (search params) user
      \<and> (case tierFilter params of Some (Only t) \<Rightarrow> user_tier user = t | _ \<Rightarrow> True)
      \<and> (case statusFilter params of Some (Only s) \<Rightarrow> user_status user = s | _ \<Rightarrow> True))"

text \<open>
  Six users, in the order of the query. The search \<open>" ANN "\<close> leaves out the second, the
  tier filter the fourth and the status filter the third; the sixth passes the search by
  the email address.
\<close>

definition sample_users :: "User list" where
  "sample_users =
     [\<lparr>user_id = ''u1'', user_name = ''Ann Lee'', user_email = ''lee@example.com'',
       user_tier = Pro, user_status = Active, user_dateJoined = ''2024-06-01'',
       user_lastActivity = ''2024-06-09''\<rparr>,
      \<lparr>user_id = ''u2'', user_name = ''Bob Ray'', user_email = ''bob@example.com'',
       user_tier = Pro, user_status = Active, user_dateJoined = ''2024-05-01'',
       user_lastActivity = ''2024-05-09''\<rparr>,
      \<lparr>user_id = ''u3'', user_name = ''Joanne'', user_email = ''jo@example.com'',
       user_tier = Pro, user_status = Inactive, user_dateJoined = ''2024-04-01'',
       user_lastActivity = ''2024-04-09''\<rparr>,
      \<lparr>user_id = ''u4'', user_name = ''Hanna'', user_email = ''h@example.com'',
       user_tier = Core, user_status = Active, user_dateJoined = ''2024-03-01'',
       user_lastActivity = ''2024-03-09''\<rparr>,
      \<lparr>user_id = ''u5'', user_name = ''DIANNE'', user_email = ''di@example.com'',
       user_tier = Pro, user_status = Active, user_dateJoined = ''2024-02-01'',
       user_lastActivity = ''2024-02-09''\<rparr>,
      \<lparr>user_id = ''u6'', user_name = ''Sue Kim'', user_email = ''Susanna@example.com'',
       user_tier = Pro, user_status = Active, user_dateJoined = ''2024-01-01'',
       user_lastActivity = ''2024-01-09''\<rparr>]"

definition sample_params :: GetUsersParams where
  "sample_params =
     \<lparr>page = 2, pageSize = 1, search = Some '' ANN '', tierFilter = Some (Only Pro),
      statusFilter = Some (Only Active), sortBy = None\<rparr>"

definition blank_params :: GetUsersParams where
  "blank_params =
     \<lparr>page = 2, pageSize = 4, search = Some ''  '', tierFilter = Some Every,
      statusFilter = None, sortBy = None\<rparr>"

section \<open>Percentage change (dashboardService, useDashboardStats)\<close>

text \<open>
  \<^verbatim>\<open>calculateDelta(current, previous)\<close> of dashboardService:
  \<^verbatim>\<open>if (previous === 0) return current > 0 ? 100 : 0;
  return Number(((current - previous) / previous) * 100);\<close>
\<close>

definition calculateDelta :: "rat \<Rightarrow> rat \<Rightarrow> rat" where
  "calculateDelta current previous =
     (if previous = 0 then (if current > 0 then 100 else 0)
      else ((current - previous) / previous) * 100)"

text \<open>
  \<^verbatim>\<open>getDeltaPercentage(current, previous: number | undefined)\<close> of useDashboardStats:
  the guard is \<^verbatim>\<open>!previous || previous === 0\<close>; \<open>None\<close> is \<open>undefined\<close>.
\<close>

definition getDeltaPercentage :: "rat \<Rightarrow> rat option \<Rightarrow> rat" where
  "getDeltaPercentage current previous =
     (case previous of
        None \<Rightarrow> (if current > 0 then 100 else 0)
      | Some p \<Rightarrow>
          (if p = 0 \<or> p = 0 then (if current > 0 then 100 else 0)
           else ((current - p) / p) * 100))"

section \<open>Dispute status (disputesService)\<close>

datatype DisputeStatus = Open | Resolved | Mailed

text \<open>
  \<^verbatim>\<open>const letters = userData.letters || userData.generatedLetters || [];
  return Array.isArray(letters) && letters.length > 0;\<close>
\<close>

definition hasLettersForDispute :: "jsval \<Rightarrow> bool" where
  "hasLettersForDispute userData =
     nonempty_array
       (js_or (js_or (get_field userData ''letters'') (get_field userData ''generatedLetters''))
              (JArr []))"

text \<open>
  \<^verbatim>\<open>determineDisputeStatus(dispute, userData)\<close>. \<open>dispute\<close> is an element of the
  \<open>disputeCandidates\<close> array; reading \<open>dispute.status\<close> of \<open>null\<close> or \<open>undefined\<close>
  throws a TypeError.
\<close>

definition determineDisputeStatus :: "jsval \<Rightarrow> jsval \<Rightarrow> js_error + DisputeStatus" where
  "determineDisputeStatus dispute userData =
     (if dispute = JNull \<or> dispute = JUndefined then Inl TypeError
      else if get_field dispute ''status'' = JStr ''resolved''
            \<or> get_field dispute ''status'' = JStr ''closed'' then Inr Resolved
      else if hasLettersForDispute userData then Inr Mailed
      else Inr Open)"

text \<open>
  The derivation as the specification words it: resolved when the status field says
  \<open>resolved\<close>, otherwise mailed when the user has letters, otherwise open; the user
  has letters when the \<open>letters\<close> array or the \<open>generatedLetters\<close> array of the user
  document is non-empty.
\<close>

definition user_has_letters :: "jsval \<Rightarrow> bool" where
  "user_has_letters userData =
     (nonempty_array (get_field userData ''letters'')
      \<or> nonempty_array (get_field userData ''generatedLetters''))"

definition dispute_status_as_specified :: "jsval \<Rightarrow> bool \<Rightarrow> DisputeStatus" where
  "dispute_status_as_specified status has_letters =
     (if status = JStr ''resolved'' then Resolved
      else if has_letters then Mailed
      else Open)"

text \<open>The same derivation with \<open>closed\<close> counted as resolved.\<close>

definition dispute_status_with_closed :: "jsval \<Rightarrow> bool \<Rightarrow> DisputeStatus" where
  "dispute_status_with_closed status has_letters =
     (if status = JStr ''resolved'' \<or> status = JStr ''closed'' then Resolved
      else if has_letters then Mailed
      else Open)"

text \<open>
  A user document whose \<open>letters\<close> field is present but is not a non-empty array (an
  empty array, say), beside a non-empty \<open>generatedLetters\<close> array.
\<close>

definition letters_shadowed :: "jsval \<Rightarrow> bool" where
  "letters_shadowed userData =
     (truthy (get_field userData ''letters'')
      \<and> \<not> nonempty_array (get_field userData ''letters'')
      \<and> nonempty_array (get_field userData ''generatedLetters''))"

section \<open>Journey stage (userJourneyService)\<close>

definition hasLetters :: "jsval \<Rightarrow> bool" where
  "hasLetters userData =
     (let letters = js_or (js_or (get_field userData ''letters'')
                                 (get_field userData ''generatedLetters'')) (JArr [])
      in if nonempty_array letters then True else False)"

text \<open>
  \<^verbatim>\<open>calculateJourneyStage(userData)\<close>; \<open>now\<close> is \<open>Date.now()\<close>. The test
  \<^verbatim>\<open>(Date.now() - lastActivity.getTime()) / (1000 * 60 * 60 * 24) > 30\<close> is written
  without the division.
\<close>

definition calculateJourneyStage :: "int \<Rightarrow> jsval \<Rightarrow> string" where
  "calculateJourneyStage now userData =
     (let documentsCompleted = (get_field userData ''documentsCompleted'' = JBool True);
          creditReportUrl = get_field userData ''creditReportUrl'';
          tier = js_or (js_or (get_field userData ''membershipTier'') (get_field userData ''tier''))
                       (get_field userData ''membership'');
          analysis = js_or (get_field userData ''creditReportAnalysis'') (JObj []);
          disputes = js_or (get_field analysis ''disputeCandidates'') (JArr []);
          hasDisputes = nonempty_array disputes;
          userHasLetters = hasLetters userData
      in if \<not> documentsCompleted then ''Onboarding & profile complete''
         else if \<not> truthy creditReportUrl then ''Credit pull & analysis''
         else if \<not> truthy tier then ''Plan assigned''
         else if \<not> hasDisputes then ''Disputes created & letters queued''
         else if userHasLetters then ''Mailing & bureau responses''
         else
           (let updatedAt = toDate (get_field userData ''updatedAt'');
                createdAt = toDate (get_field userData ''createdAt'');
                lastActivity = (case updatedAt of Some t \<Rightarrow> Some t | None \<Rightarrow> createdAt)
            in case lastActivity of
                 Some t \<Rightarrow>
                   (if now - t > 30 * (1000 * 60 * 60 * 24) \<and> hasDisputes
                    then ''Monitoring & follow-up''
                    else ''Mailing & bureau responses'')
               | None \<Rightarrow> ''Mailing & bureau responses''))"

section \<open>Theorems\<close>

subsection \<open>Dates\<close>

lemma month_range: "0 \<le> MonthFromTime t \<and> MonthFromTime t \<le> 11"
  by (simp add: MonthFromTime_def Let_def)

lemma MakeDay_shift:
  "MakeDay (YearFromTime t) (MonthFromTime t) (DateFromTime t + k) = Day t + k"
proof -
  have r: "0 \<le> MonthFromTime t" "MonthFromTime t \<le> 11" using month_range by auto
  then have "MonthFromTime t div 12 = 0" "MonthFromTime t mod 12 = MonthFromTime t" by auto
  then show ?thesis
    by (simp add: MakeDay_def DateFromTime_def DayWithinYear_def InLeapYear_def Let_def)
qed

lemma TimeWithinDay_range: "0 \<le> TimeWithinDay t \<and> TimeWithinDay t < msPerDay"
  by (simp add: TimeWithinDay_def msPerDay_def)

lemma Day_MakeDate: "0 \<le> tm \<Longrightarrow> tm < msPerDay \<Longrightarrow> Day (MakeDate d tm) = d"
  by (simp add: Day_def MakeDate_def msPerDay_def)

lemma offset_at_in:
  "u \<in> set (possible_instants z lt) \<Longrightarrow> offset_at z u = lt - u"
  by (auto simp: possible_instants_def split: if_splits)

lemma LocalTime_UTC: "zone_has z lt \<Longrightarrow> LocalTime z (UTC z lt) = lt"
proof -
  assume "zone_has z lt"
  then obtain u us where p: "possible_instants z lt = u # us"
    by (cases "possible_instants z lt") (auto simp: zone_has_def)
  then have "u \<in> set (possible_instants z lt)" by simp
  then have "offset_at z u = lt - u" by (rule offset_at_in)
  with p show ?thesis by (simp add: UTC_def LocalTime_def)
qed

lemma offset_at_fixed: "offset_at (fixed_zone off) t = off"
  by (simp add: offset_at_def fixed_zone_def)

lemma LocalTime_fixed: "LocalTime (fixed_zone off) t = t + off"
  by (simp add: LocalTime_def offset_at_fixed)

lemma possible_instants_fixed: "possible_instants (fixed_zone off) lt = [lt - off]"
  by (simp add: possible_instants_def offset_at_fixed) (simp add: fixed_zone_def)

lemma zone_has_fixed: "zone_has (fixed_zone off) lt"
  by (simp add: zone_has_def possible_instants_fixed)

lemma UTC_fixed: "UTC (fixed_zone off) lt = lt - off"
  by (simp add: UTC_def possible_instants_fixed offset_at_fixed)

lemma setHours_0: "setHours z t 0 0 0 0 = UTC z (MakeDate (Day (LocalTime z t)) 0)"
  by (simp add: setHours_def MakeTime_def)

lemma setHours_end: "setHours z t 23 59 59 999 = end_of_day z t"
  by (simp add: setHours_def end_of_day_def)

lemma setDate_back:
  "setDate z t (getDate z t - k)
   = UTC z (MakeDate (Day (LocalTime z t) - k) (TimeWithinDay (LocalTime z t)))"
  using MakeDay_shift [of "LocalTime z t" "- k"] by (simp add: setDate_def getDate_def)

lemma setDate_1:
  "setDate z t 1
   = UTC z (MakeDate (MakeDay (YearFromTime (LocalTime z t)) (MonthFromTime (LocalTime z t)) 1)
                     (TimeWithinDay (LocalTime z t)))"
  by (simp add: setDate_def)

lemma Day_MakeDate_0: "Day (MakeDate d 0) = d"
  by (simp add: Day_MakeDate msPerDay_def)

lemma TimeWithinDay_MakeDate: "0 \<le> tm \<Longrightarrow> tm < msPerDay \<Longrightarrow> TimeWithinDay (MakeDate d tm) = tm"
  by (simp add: TimeWithinDay_def MakeDate_def msPerDay_def)

text \<open>
  What \<^verbatim>\<open>setHours(0, 0, 0, 0)\<close> gives after the day was set to \<open>d\<close> with the time of
  day \<open>tw\<close>, when the local clock shows midnight of \<open>d\<close>; a second call changes nothing.
\<close>

lemma setHours_0_after:
  assumes "Day (LocalTime z (UTC z (MakeDate d tw))) = d"
  shows "setHours z (UTC z (MakeDate d tw)) 0 0 0 0 = UTC z (MakeDate d 0)"
  using assms by (simp add: setHours_0)

lemma setHours_0_again:
  assumes "zone_has z (MakeDate d 0)"
  shows "setHours z (UTC z (MakeDate d 0)) 0 0 0 0 = UTC z (MakeDate d 0)"
  using LocalTime_UTC [OF assms] by (simp add: setHours_0 Day_MakeDate_0)

lemmas resolver_simps =
  computed_start_day_def Let_def setHours_end setDate_back setDate_1 setMonth_def
  getMonth_def setHours_0_after setHours_0_again mult.commute

lemma start_resolved:
  assumes "rng \<noteq> All_time"
    and "d = computed_start_day (LocalTime z now2) rng"
    and "Day (LocalTime z (UTC z (MakeDate d (TimeWithinDay (LocalTime z now2))))) = d"
    and "zone_has z (MakeDate d 0)"
  shows "getDateRange z now1 now2 rng = Some (UTC z (MakeDate d 0), end_of_day z now1)"
  using assms by (cases rng) (simp_all add: getDateRange_def resolver_simps)

lemma tickets_start_resolved:
  assumes "rng \<noteq> All_time"
    and "d = computed_start_day (LocalTime z now2) rng"
    and "Day (LocalTime z (UTC z (MakeDate d (TimeWithinDay (LocalTime z now2))))) = d"
    and "zone_has z (MakeDate d 0)"
  shows "supportTickets_getDateRange z now1 now2 rng
           = (Some (UTC z (MakeDate d 0)), Some (end_of_day z now1))"
  using assms by (cases rng) (simp_all add: supportTickets_getDateRange_def resolver_simps)

lemma dashboard_start_resolved:
  assumes "d = computed_start_day (LocalTime z now2) rng"
    and "Day (LocalTime z (UTC z (MakeDate d (TimeWithinDay (LocalTime z now2))))) = d"
    and "zone_has z (MakeDate d 0)"
  shows "dashboard_getDateRange z now1 now2 rng = (UTC z (MakeDate d 0), end_of_day z now1)"
  using assms
  by (cases rng) (simp_all add: dashboard_getDateRange_def setFullYear_def resolver_simps)

lemma analytics_start_resolved:
  assumes "arng \<noteq> A_custom"
    and "d = computed_start_day (LocalTime z now2) (as_DateRange arng)"
    and "Day (LocalTime z (UTC z (MakeDate d (TimeWithinDay (LocalTime z now2))))) = d"
    and "zone_has z (MakeDate d 0)"
  shows "calculateDateRange z now1 now2 arng cs ce = (UTC z (MakeDate d 0), end_of_day z now1)"
  using assms
  by (cases arng) (simp_all add: calculateDateRange_def as_DateRange_def resolver_simps)

lemma year_search_upper: "d < DayFromYear (year_search y d + 1)"
proof (induction y d rule: year_search.induct)
  case (1 y d)
  show ?case
  proof (cases "DayFromYear (y + 1) \<le> d")
    case True
    then have "year_search y d = year_search (y + 1) d" by (subst year_search.simps) simp
    with 1 [OF True] show ?thesis by simp
  next
    case False
    then have "year_search y d = y" by (subst year_search.simps) simp
    with False show ?thesis by simp
  qed
qed

lemma year_search_lower: "DayFromYear y \<le> d \<Longrightarrow> DayFromYear (year_search y d) \<le> d"
proof (induction y d rule: year_search.induct)
  case (1 y d)
  show ?case
  proof (cases "DayFromYear (y + 1) \<le> d")
    case True
    then have "year_search y d = year_search (y + 1) d" by (subst year_search.simps) simp
    with 1(1) [OF True True] show ?thesis by simp
  next
    case False
    then have "year_search y d = y" by (subst year_search.simps) simp
    with 1(2) show ?thesis by simp
  qed
qed

lemma year_down_lower: "DayFromYear (year_down y d) \<le> d"
proof (induction y d rule: year_down.induct)
  case (1 y d)
  show ?case
  proof (cases "d < DayFromYear y")
    case True
    then have "year_down y d = year_down (y - 1) d" by (subst year_down.simps) simp
    with 1 [OF True] show ?thesis by simp
  next
    case False
    then have "year_down y d = y" by (subst year_down.simps) simp
    with False show ?thesis by simp
  qed
qed

lemma YearFromTime_correct:
  "DayFromYear (YearFromTime t) \<le> Day t \<and> Day t < DayFromYear (YearFromTime t + 1)"
  unfolding YearFromTime_def Let_def
  using year_search_upper year_search_lower [OF year_down_lower] by blast

subsection \<open>Date-range resolvers\<close>

text \<open>
  On a machine whose offset from UTC never changes the local clock shows every time, and
  for \<open>last_7_days\<close>, \<open>last_30_days\<close>, \<open>this_month\<close> and \<open>this_quarter\<close> every resolver
  returns the instants of 00:00:00.000 of the start day and of 23:59:59.999 of the day of
  the reading.
\<close>

lemma resolver_bounds_fixed_zone:
  assumes "rng \<noteq> All_time" and "d = computed_start_day (now2 + off) rng"
  shows "getDateRange (fixed_zone off) now1 now2 rng
           = Some (MakeDate d 0 - off, MakeDate (Day (now1 + off)) (MakeTime 23 59 59 999) - off)"
    and "supportTickets_getDateRange (fixed_zone off) now1 now2 rng
           = (Some (MakeDate d 0 - off),
              Some (MakeDate (Day (now1 + off)) (MakeTime 23 59 59 999) - off))"
    and "dashboard_getDateRange (fixed_zone off) now1 now2 rng
           = (MakeDate d 0 - off, MakeDate (Day (now1 + off)) (MakeTime 23 59 59 999) - off)"
proof -
  have d: "d = computed_start_day (LocalTime (fixed_zone off) now2) rng"
    using assms(2) by (simp add: LocalTime_fixed)
  have k: "Day (LocalTime (fixed_zone off)
                 (UTC (fixed_zone off) (MakeDate d (TimeWithinDay (LocalTime (fixed_zone off) now2)))))
           = d"
    using TimeWithinDay_range [of "now2 + off"]
    by (simp add: LocalTime_fixed UTC_fixed Day_MakeDate)
  have e: "end_of_day (fixed_zone off) now1
           = MakeDate (Day (now1 + off)) (MakeTime 23 59 59 999) - off"
    by (simp add: end_of_day_def LocalTime_fixed UTC_fixed)
  show "getDateRange (fixed_zone off) now1 now2 rng
           = Some (MakeDate d 0 - off, MakeDate (Day (now1 + off)) (MakeTime 23 59 59 999) - off)"
    using start_resolved [OF assms(1) d k zone_has_fixed, of now1] by (simp add: UTC_fixed e)
  show "supportTickets_getDateRange (fixed_zone off) now1 now2 rng
           = (Some (MakeDate d 0 - off),
              Some (MakeDate (Day (now1 + off)) (MakeTime 23 59 59 999) - off))"
    using tickets_start_resolved [OF assms(1) d k zone_has_fixed, of now1]
    by (simp add: UTC_fixed e)
  show "dashboard_getDateRange (fixed_zone off) now1 now2 rng
           = (MakeDate d 0 - off, MakeDate (Day (now1 + off)) (MakeTime 23 59 59 999) - off)"
    using dashboard_start_resolved [OF d k zone_has_fixed, of now1] by (simp add: UTC_fixed e)
qed

text \<open>
  C4, as the claim has it, fails where the local clock is moved forward over one of the
  times involved. In America/Santiago the clock went from 23:59:59.999 of September 7,
  2024 to 01:00:00.000 of September 8. On September 15, 2024 at 12:00 there,
  \<open>last_7_days\<close> starts on September 8, and \<^verbatim>\<open>setHours(0, 0, 0, 0)\<close> gives 01:00:00.000
  of that day: the disputes resolver, the dashboard resolver and the analytics resolver
  all return a start whose local time of day is one hour, not zero. In America/Nuuk the
  clock went from 22:59:59.999 of March 30, 2024 to 00:00:00.000 of March 31. On March
  30 at 13:00 there, \<^verbatim>\<open>setHours(23, 59, 59, 999)\<close> gives as end 00:59:59.999 of March 31,
  the day after the reading. And on April 6 at 23:30 there, \<open>last_7_days\<close> starts on March
  30, whose midnight the clock shows, but \<^verbatim>\<open>setDate\<close> moves the reading to 00:30 of
  March 31, and the start returned is 00:00:00.000 of March 31.
\<close>

theorem resolver_skipped_time_counterexample:
  "getDateRange santiago_2024 1726412400000 1726412400001 Last_7_days
     = Some (1725768000000, 1726455599999)
   \<and> dashboard_getDateRange santiago_2024 1726412400000 1726412400001 Last_7_days
     = (1725768000000, 1726455599999)
   \<and> calculateDateRange santiago_2024 1726412400000 1726412400001 A_last_7_days None None
     = (1725768000000, 1726455599999)
   \<and> Day (LocalTime santiago_2024 1725768000000)
     = computed_start_day (LocalTime santiago_2024 1726412400001) Last_7_days
   \<and> TimeWithinDay (LocalTime santiago_2024 1725768000000) = MakeTime 1 0 0 0
   \<and> TimeWithinDay (LocalTime santiago_2024 1725768000000) \<noteq> MakeTime 0 0 0 0
   \<and> getDateRange nuuk_2024 1711810800000 1711810800001 Last_7_days
     = Some (1711159200000, 1711850399999)
   \<and> calculateDateRange nuuk_2024 1711810800000 1711810800001 A_last_7_days None None
     = (1711159200000, 1711850399999)
   \<and> Day (LocalTime nuuk_2024 1711850399999) = Day (LocalTime nuuk_2024 1711810800000) + 1
   \<and> TimeWithinDay (LocalTime nuuk_2024 1711850399999) = MakeTime 0 59 59 999
   \<and> getDateRange nuuk_2024 1712449800000 1712449800001 Last_7_days
     = Some (1711846800000, 1712451599999)
   \<and> calculateDateRange nuuk_2024 1712449800000 1712449800001 A_last_7_days None None
     = (1711846800000, 1712451599999)
   \<and> computed_start_day (LocalTime nuuk_2024 1712449800001) Last_7_days = 19812
   \<and> zone_has nuuk_2024 (MakeDate 19812 (MakeTime 0 0 0 0))
   \<and> Day (LocalTime nuuk_2024 1711846800000) = 19813
   \<and> TimeWithinDay (LocalTime nuuk_2024 1711846800000) = MakeTime 0 0 0 0"
  by code_simp

text \<open>
  C4, amended. Take \<open>last_7_days\<close>, \<open>last_30_days\<close>, \<open>this_month\<close> or \<open>this_quarter\<close>, and
  let \<open>d\<close> be the start day: seven or thirty days before the local day of the clock
  reading, the first of its month, the first of its quarter. Suppose the local clock of
  the machine shows 00:00:00.000 of \<open>d\<close> and 23:59:59.999 of the day of the reading, and
  that the time of day of the reading, set on \<open>d\<close>, is a time of \<open>d\<close>. Then every resolver
  (the four services that share one text, supportTicketsService, dashboardService and
  analyticsService) returns as start the instant at which the local clock shows
  00:00:00.000 of \<open>d\<close>, and as end the instant at which it shows 23:59:59.999 of the day
  of the reading.
\<close>

theorem resolver_bounds:
  assumes "rng \<noteq> All_time"
    and "d = computed_start_day (LocalTime z now2) rng"
    and "Day (LocalTime z (UTC z (MakeDate d (TimeWithinDay (LocalTime z now2))))) = d"
    and "zone_has z (MakeDate d (MakeTime 0 0 0 0))"
    and "zone_has z (MakeDate (Day (LocalTime z now1)) (MakeTime 23 59 59 999))"
  shows "getDateRange z now1 now2 rng = Some (UTC z (MakeDate d 0), end_of_day z now1)
   \<and> supportTickets_getDateRange z now1 now2 rng
        = (Some (UTC z (MakeDate d 0)), Some (end_of_day z now1))
   \<and> dashboard_getDateRange z now1 now2 rng = (UTC z (MakeDate d 0), end_of_day z now1)
   \<and> (arng \<noteq> A_custom \<and> as_DateRange arng = rng \<longrightarrow>
        calculateDateRange z now1 now2 arng cs ce = (UTC z (MakeDate d 0), end_of_day z now1))
   \<and> Day (LocalTime z (UTC z (MakeDate d 0))) = d
   \<and> TimeWithinDay (LocalTime z (UTC z (MakeDate d 0))) = MakeTime 0 0 0 0
   \<and> Day (LocalTime z (end_of_day z now1)) = Day (LocalTime z now1)
   \<and> TimeWithinDay (LocalTime z (end_of_day z now1)) = MakeTime 23 59 59 999"
proof -
  have m: "zone_has z (MakeDate d 0)" using assms(4) by (simp add: MakeTime_def)
  have a: "getDateRange z now1 now2 rng = Some (UTC z (MakeDate d 0), end_of_day z now1)"
    using assms(1,2,3) m by (rule start_resolved)
  have b: "supportTickets_getDateRange z now1 now2 rng
        = (Some (UTC z (MakeDate d 0)), Some (end_of_day z now1))"
    using assms(1,2,3) m by (rule tickets_start_resolved)
  have c: "dashboard_getDateRange z now1 now2 rng = (UTC z (MakeDate d 0), end_of_day z now1)"
    using assms(2,3) m by (rule dashboard_start_resolved)
  have e: "arng \<noteq> A_custom \<and> as_DateRange arng = rng \<longrightarrow>
        calculateDateRange z now1 now2 arng cs ce = (UTC z (MakeDate d 0), end_of_day z now1)"
    using analytics_start_resolved [of arng d z now2 now1 cs ce] assms(2,3) m by blast
  have s: "LocalTime z (UTC z (MakeDate d 0)) = MakeDate d 0"
    using m by (rule LocalTime_UTC)
  have f: "Day (LocalTime z (UTC z (MakeDate d 0))) = d"
    unfolding s by (rule Day_MakeDate_0)
  have g: "TimeWithinDay (LocalTime z (UTC z (MakeDate d 0))) = MakeTime 0 0 0 0"
    unfolding s by (simp add: TimeWithinDay_MakeDate MakeTime_def msPerDay_def)
  have n: "LocalTime z (end_of_day z now1)
           = MakeDate (Day (LocalTime z now1)) (MakeTime 23 59 59 999)"
    unfolding end_of_day_def using assms(5) by (rule LocalTime_UTC)
  have h: "Day (LocalTime z (end_of_day z now1)) = Day (LocalTime z now1)"
    unfolding n by (simp add: Day_MakeDate MakeTime_def msPerDay_def)
  have i: "TimeWithinDay (LocalTime z (end_of_day z now1)) = MakeTime 23 59 59 999"
    unfolding n by (simp add: TimeWithinDay_MakeDate MakeTime_def msPerDay_def)
  from a b c e f g h i show ?thesis by blast
qed

text \<open>
  On September 10, 2024 at 12:00 in that zone, \<open>last_30_days\<close> starts on August 11 at
  00:00:00.000, four hours behind UTC, and ends on September 10 at 23:59:59.999, three
  hours behind UTC.
\<close>

theorem resolver_bounds_witness:
  "Last_30_days \<noteq> All_time
   \<and> computed_start_day (LocalTime santiago_2024 1725980400001) Last_30_days = 19946
   \<and> Day (LocalTime santiago_2024 (UTC santiago_2024
            (MakeDate 19946 (TimeWithinDay (LocalTime santiago_2024 1725980400001))))) = 19946
   \<and> zone_has santiago_2024 (MakeDate 19946 (MakeTime 0 0 0 0))
   \<and> zone_has santiago_2024
         (MakeDate (Day (LocalTime santiago_2024 1725980400000)) (MakeTime 23 59 59 999))
   \<and> A_last_30_days \<noteq> A_custom \<and> as_DateRange A_last_30_days = Last_30_days
   \<and> getDateRange santiago_2024 1725980400000 1725980400001 Last_30_days
       = Some (1723348800000, 1726023599999)
   \<and> supportTickets_getDateRange santiago_2024 1725980400000 1725980400001 Last_30_days
       = (Some 1723348800000, Some 1726023599999)
   \<and> dashboard_getDateRange santiago_2024 1725980400000 1725980400001 Last_30_days
       = (1723348800000, 1726023599999)
   \<and> calculateDateRange santiago_2024 1725980400000 1725980400001 A_last_30_days None None
       = (1723348800000, 1726023599999)
   \<and> TimeWithinDay (LocalTime santiago_2024 1723348800000) = 0
   \<and> TimeWithinDay (LocalTime santiago_2024 1726023599999) = 86399999"
proof -
  have h1: "Last_30_days \<noteq> All_time" by simp
  have h2: "19946 = computed_start_day (LocalTime santiago_2024 1725980400001) Last_30_days"
    by code_simp
  have h3: "Day (LocalTime santiago_2024 (UTC santiago_2024
            (MakeDate 19946 (TimeWithinDay (LocalTime santiago_2024 1725980400001))))) = 19946"
    by code_simp
  have h4: "zone_has santiago_2024 (MakeDate 19946 (MakeTime 0 0 0 0))" by code_simp
  have h5: "zone_has santiago_2024
         (MakeDate (Day (LocalTime santiago_2024 1725980400000)) (MakeTime 23 59 59 999))"
    by code_simp
  have s: "UTC santiago_2024 (MakeDate 19946 0) = 1723348800000" by code_simp
  have e: "end_of_day santiago_2024 1725980400000 = 1726023599999" by code_simp
  have k: "as_DateRange A_last_30_days = Last_30_days" by code_simp
  have t: "MakeTime 0 0 0 0 = 0" "MakeTime 23 59 59 999 = 86399999" by code_simp+
  show ?thesis
    using resolver_bounds [OF h1 h2 h3 h4 h5, of A_last_30_days None None]
          h2 h3 h4 h5
    unfolding s e t by (simp add: k)
qed

text \<open>
  The calendar cases on a concrete clock at UTC: 1700000000000 is November 14, 2023; the
  month starts on November 1 and the quarter on October 1.
\<close>

lemma resolver_calendar_example:
  "getDateRange (fixed_zone 0) 1700000000000 1700000000001 This_month
     = Some (1698796800000, 1700006399999)
   \<and> getDateRange (fixed_zone 0) 1700000000000 1700000000001 This_quarter
     = Some (1696118400000, 1700006399999)
   \<and> getDateRange (fixed_zone 0) 1709218800000 1709218800000 Last_30_days
     = Some (1706572800000, 1709251199999)
   \<and> getDateRange santiago_2024 1725980400000 1725980400001 This_month
     = Some (1725163200000, 1726023599999)"
  by code_simp

subsection \<open>Sorting, ticket selection, active users\<close>

lemma mset_js_insert: "mset (js_insert cmp x ys) = add_mset x (mset ys)"
  by (induction ys) auto

lemma mset_js_sort: "mset (js_sort cmp xs) = mset xs"
  by (induction xs) (auto simp: js_sort_def mset_js_insert)

lemma collect_tickets_unfiltered:
  "collect_tickets mp None None docs
   = List.map_filter (\<lambda>d. map_option (Pair (thread_id d)) (mp d)) docs"
  by (induction docs) (auto simp: List.map_filter_simps split: option.splits)

lemma set_js_set_add: "set (js_set_add s x) = insert x (set s)"
  by (auto simp: js_set_add_def)

lemma fold_add_ids:
  "set (fold (\<lambda>(i, data) s. js_set_add s i) xs acc) = set acc \<union> fst ` set xs"
  by (induction xs arbitrary: acc) (auto simp: set_js_set_add)

lemma fold_add_active:
  "x \<in> set (fold (\<lambda>(i, data) s. if P data then js_set_add s i else s) xs acc)
   \<longleftrightarrow> x \<in> set acc \<or> (\<exists>data. (x, data) \<in> set xs \<and> P data)"
  by (induction xs arbitrary: acc) (auto simp: set_js_set_add split: if_splits)

lemma not_in_range_before: "dated_before s data \<Longrightarrow> \<not> ts_in_range s e (get_field data ''updatedAt'')"
  "dated_before s data \<Longrightarrow> \<not> ts_in_range s e (get_field data ''createdAt'')"
  "dated_before s data \<Longrightarrow> \<not> lastActive_in_range s e data"
  by (auto simp: dated_before_def ts_in_range_def lastActive_in_range_def split: option.splits)

lemma activeUserIds_subset:
  "uid \<in> set (activeUserIds q1 q2 users s e)
   \<Longrightarrow> \<exists>data. (uid, data) \<in> set users \<and> \<not> dated_before s data"
proof -
  assume "uid \<in> set (activeUserIds q1 q2 users s e)"
  then have "\<exists>data. (uid, data) \<in> set users
               \<and> (ts_in_range s e (get_field data ''updatedAt'')
                  \<or> ts_in_range s e (get_field data ''createdAt'')
                  \<or> lastActive_in_range s e data)"
    unfolding activeUserIds_def Let_def
    by (auto simp: fold_add_ids fold_add_active split: if_splits)
  then show ?thesis using not_in_range_before by blast
qed

lemma all_time_start: "MakeDate (MakeDay 2000 0 1) 0 = 946684800000"
  by (simp add: MakeDate_def MakeDay_def DayFromYear_def month_start_def msPerDay_def Let_def)

lemma all_time_start_fields:
  "YearFromTime 946684800000 = 2000 \<and> MonthFromTime 946684800000 = 0
   \<and> DateFromTime 946684800000 = 1 \<and> TimeWithinDay 946684800000 = 0"
  by code_simp

lemma dashboard_all_time:
  assumes "Day (LocalTime z (UTC z (MakeDate (MakeDay 2000 0 1) (TimeWithinDay (LocalTime z now2)))))
           = MakeDay 2000 0 1"
    and "zone_has z (MakeDate (MakeDay 2000 0 1) 0)"
  shows "dashboard_getDateRange z now1 now2 All_time
         = (UTC z (MakeDate (MakeDay 2000 0 1) 0), end_of_day z now1)"
  using assms by (intro dashboard_start_resolved) (simp_all add: computed_start_day_def)

lemma dashboard_all_time_fixed:
  "dashboard_getDateRange (fixed_zone off) now1 now2 All_time
   = (946684800000 - off, end_of_day (fixed_zone off) now1)"
proof -
  have "Day (LocalTime (fixed_zone off)
          (UTC (fixed_zone off)
             (MakeDate (MakeDay 2000 0 1) (TimeWithinDay (LocalTime (fixed_zone off) now2)))))
        = MakeDay 2000 0 1"
    using TimeWithinDay_range [of "now2 + off"]
    by (simp add: LocalTime_fixed UTC_fixed Day_MakeDate)
  from dashboard_all_time [OF this zone_has_fixed] show ?thesis
    by (simp add: UTC_fixed all_time_start)
qed

lemma letters_drop_early:
  "getLettersGenerated (Some docs) users s e
   = getLettersGenerated (Some (filter (\<lambda>d. \<not> created_before s d) docs)) users s e"
proof -
  have "filter (\<lambda>d. ts_in_range s e (get_field d ''createdAt'')) (filter (\<lambda>d. \<not> created_before s d) docs)
        = filter (\<lambda>d. ts_in_range s e (get_field d ''createdAt'')) docs"
    unfolding filter_filter
    by (rule filter_cong) (auto simp: ts_in_range_def created_before_def split: option.splits)
  then show ?thesis by (simp add: getLettersGenerated_def)
qed

text \<open>
  C1. The two conventions for \<open>all_time\<close>. In supportTicketsService the range is a
  pair of \<open>null\<close>s, and \<^verbatim>\<open>getSupportTickets\<close> then returns a ticket for every thread
  that \<^verbatim>\<open>mapThreadToTicket\<close> maps, whatever its timestamps. In dashboardService the
  range starts at January 1, 2000 00:00:00.000 local time: the instant 946684800000 less
  the offset on a machine at a fixed offset from UTC, and in any time zone whose clock
  shows that midnight and keeps the time of day of the reading on that day. Under the
  range of the dashboard a user whose \<open>updatedAt\<close> and \<open>createdAt\<close> are before its start
  is not among the active users, and letters created before it do not count.
\<close>

theorem all_time_conventions:
  "supportTickets_getDateRange z now1 now2 All_time = (None, None)
   \<and> mset (getSupportTickets mapThreadToTicket z now1 now2 All_time docs)
       = mset (List.map_filter (\<lambda>d. map_option (Pair (thread_id d)) (mapThreadToTicket d)) docs)
   \<and> dashboard_getDateRange (fixed_zone off) now1 now2 All_time
       = (MakeDate (MakeDay 2000 0 1) (MakeTime 0 0 0 0) - off, end_of_day (fixed_zone off) now1)
   \<and> LocalTime (fixed_zone off) (fst (dashboard_getDateRange (fixed_zone off) now1 now2 All_time))
       = MakeDate (MakeDay 2000 0 1) (MakeTime 0 0 0 0)
   \<and> MakeDate (MakeDay 2000 0 1) (MakeTime 0 0 0 0) = 946684800000
   \<and> (Day (LocalTime z (UTC z (MakeDate (MakeDay 2000 0 1) (TimeWithinDay (LocalTime z now2)))))
        = MakeDay 2000 0 1
      \<and> zone_has z (MakeDate (MakeDay 2000 0 1) (MakeTime 0 0 0 0))
      \<longrightarrow> LocalTime z (fst (dashboard_getDateRange z now1 now2 All_time))
            = MakeDate (MakeDay 2000 0 1) (MakeTime 0 0 0 0)
          \<and> snd (dashboard_getDateRange z now1 now2 All_time) = end_of_day z now1)
   \<and> ((\<forall>data. (uid, data) \<in> set users
               \<longrightarrow> dated_before (fst (dashboard_getDateRange z now1 now2 All_time)) data)
        \<longrightarrow> uid \<notin> set (activeUserIds q1_ok q2_ok users
                            (fst (dashboard_getDateRange z now1 now2 All_time))
                            (snd (dashboard_getDateRange z now1 now2 All_time))))
   \<and> getLettersGenerated (Some letters) us
         (fst (dashboard_getDateRange z now1 now2 All_time))
         (snd (dashboard_getDateRange z now1 now2 All_time))
       = getLettersGenerated
           (Some (filter (\<lambda>d. \<not> created_before (fst (dashboard_getDateRange z now1 now2 All_time)) d)
                         letters)) us
           (fst (dashboard_getDateRange z now1 now2 All_time))
           (snd (dashboard_getDateRange z now1 now2 All_time))"
proof -
  have a: "supportTickets_getDateRange z now1 now2 All_time = (None, None)"
    by (simp add: supportTickets_getDateRange_def)
  have b: "mset (getSupportTickets mapThreadToTicket z now1 now2 All_time docs)
       = mset (List.map_filter (\<lambda>d. map_option (Pair (thread_id d)) (mapThreadToTicket d)) docs)"
    by (simp add: getSupportTickets_def a mset_js_sort collect_tickets_unfiltered)
  have c: "MakeDate (MakeDay 2000 0 1) (MakeTime 0 0 0 0) = 946684800000"
    using all_time_start by (simp add: MakeTime_def)
  have d: "dashboard_getDateRange (fixed_zone off) now1 now2 All_time
       = (MakeDate (MakeDay 2000 0 1) (MakeTime 0 0 0 0) - off, end_of_day (fixed_zone off) now1)"
    unfolding c by (rule dashboard_all_time_fixed)
  have d': "LocalTime (fixed_zone off) (fst (dashboard_getDateRange (fixed_zone off) now1 now2 All_time))
       = MakeDate (MakeDay 2000 0 1) (MakeTime 0 0 0 0)"
    unfolding d by (simp add: LocalTime_fixed)
  have g: "Day (LocalTime z (UTC z (MakeDate (MakeDay 2000 0 1) (TimeWithinDay (LocalTime z now2)))))
        = MakeDay 2000 0 1
      \<and> zone_has z (MakeDate (MakeDay 2000 0 1) (MakeTime 0 0 0 0))
      \<longrightarrow> LocalTime z (fst (dashboard_getDateRange z now1 now2 All_time))
            = MakeDate (MakeDay 2000 0 1) (MakeTime 0 0 0 0)
          \<and> snd (dashboard_getDateRange z now1 now2 All_time) = end_of_day z now1"
  proof
    assume h: "Day (LocalTime z (UTC z (MakeDate (MakeDay 2000 0 1) (TimeWithinDay (LocalTime z now2)))))
        = MakeDay 2000 0 1
      \<and> zone_has z (MakeDate (MakeDay 2000 0 1) (MakeTime 0 0 0 0))"
    then have m: "zone_has z (MakeDate (MakeDay 2000 0 1) 0)" by (simp add: MakeTime_def)
    from h have "dashboard_getDateRange z now1 now2 All_time
         = (UTC z (MakeDate (MakeDay 2000 0 1) 0), end_of_day z now1)"
      using dashboard_all_time [OF _ m] by blast
    then show "LocalTime z (fst (dashboard_getDateRange z now1 now2 All_time))
            = MakeDate (MakeDay 2000 0 1) (MakeTime 0 0 0 0)
          \<and> snd (dashboard_getDateRange z now1 now2 All_time) = end_of_day z now1"
      using LocalTime_UTC [OF m] by (simp add: MakeTime_def)
  qed
  have e: "(\<forall>data. (uid, data) \<in> set users \<longrightarrow> dated_before s data)
        \<longrightarrow> uid \<notin> set (activeUserIds q1_ok q2_ok users s e')" for s e'
    using activeUserIds_subset by blast
  have f: "getLettersGenerated (Some letters) us s e'
       = getLettersGenerated (Some (filter (\<lambda>d. \<not> created_before s d) letters)) us s e'" for s e'
    by (rule letters_drop_early)
  show ?thesis using a b c d d' g e f by blast
qed

text \<open>
  New York, five hours behind UTC: \<open>all_time\<close> starts at 946702800000, which is 05:00 UTC
  of January 1, 2000. A user created on January 1, 1998 is not active, and the thread of
  that day is a ticket.
\<close>

theorem all_time_conventions_witness:
  "dashboard_getDateRange (fixed_zone (- 18000000)) 1726412400000 1726412400000 All_time
     = (946702800000, 1726462799999)
   \<and> Day (LocalTime santiago_2024 (UTC santiago_2024
           (MakeDate (MakeDay 2000 0 1) (TimeWithinDay (LocalTime santiago_2024 1726412400000)))))
        = MakeDay 2000 0 1
   \<and> zone_has santiago_2024 (MakeDate (MakeDay 2000 0 1) (MakeTime 0 0 0 0))
   \<and> dashboard_getDateRange santiago_2024 1726412400000 1726412400000 All_time
     = (946699200000, 1726455599999)
   \<and> LocalTime santiago_2024 946699200000 = 946684800000
   \<and> dated_before 946699200000 (JObj [(''createdAt'', JTimestamp 883612800000)])
   \<and> ''u1'' \<notin> set (activeUserIds True True
                         [(''u1'', JObj [(''createdAt'', JTimestamp 883612800000)])]
                         946699200000 1726455599999)
   \<and> mset (getSupportTickets (\<lambda>d. Some (thread_fields d)) santiago_2024
             1726412400000 1726412400000 All_time
             [\<lparr>thread_id = ''t1'', thread_lastMessageAt = None,
               thread_createdAt = Some 883612800000, thread_fields = JObj []\<rparr>])
       = {#(''t1'', JObj [])#}"
proof -
  have h1: "Day (LocalTime santiago_2024 (UTC santiago_2024
           (MakeDate (MakeDay 2000 0 1) (TimeWithinDay (LocalTime santiago_2024 1726412400000)))))
        = MakeDay 2000 0 1" by code_simp
  have h2: "zone_has santiago_2024 (MakeDate (MakeDay 2000 0 1) (MakeTime 0 0 0 0))" by code_simp
  have r: "dashboard_getDateRange santiago_2024 1726412400000 1726412400000 All_time
     = (946699200000, 1726455599999)" by code_simp
  have e: "end_of_day (fixed_zone (- 18000000)) 1726412400000 = 1726462799999" by code_simp
  have l: "LocalTime santiago_2024 946699200000 = 946684800000" by code_simp
  have k: "dated_before 946699200000 (JObj [(''createdAt'', JTimestamp 883612800000)])"
    by code_simp
  show ?thesis
    using all_time_conventions [of santiago_2024 1726412400000 1726412400000
      "\<lambda>d. Some (thread_fields d)"
      "[\<lparr>thread_id = ''t1'', thread_lastMessageAt = None,
               thread_createdAt = Some 883612800000, thread_fields = JObj []\<rparr>]"
      "- 18000000" "''u1''" "[(''u1'', JObj [(''createdAt'', JTimestamp 883612800000)])]"
      True True "[]" None] h1 h2 k
    unfolding r e l by (simp add: List.map_filter_simps)
qed

subsection \<open>Membership distribution\<close>

text \<open>
  Twenty-three users of forty: the quotient 23 / 40 is the double just below 0.575, its
  product with 100 the double just below 57.5, and the point carries 57, where the exact
  quotient rounds to 58.
\<close>

lemma membership_distribution_doubles:
  "fl (23 / 40) = 2589569785738035 / 4503599627370496
   \<and> fl (fl (23 / 40) * 100) = 8092405580431359 / 140737488355328
   \<and> Math_round (fl (fl (23 / 40) * 100)) = 57
   \<and> Math_round ((23 / 40) * 100) = 58"
  by code_simp

lemma membership_distribution_example:
  "getMembershipDistribution (Some (members_of ''Pro'' 23 @ members_of ''gold'' 17))
   = [\<lparr>point_label = ''Pro (57%)'', point_value = Some 57, point_color = Some ''#D4A317''\<rparr>,
      \<lparr>point_label = ''gold (43%)'', point_value = Some 43, point_color = Some ''#9CA3AF''\<rparr>]"
  by code_simp

text \<open>
  C6 fails on a tier string that names a property every JavaScript object inherits. For
  the one user whose tier is \<open>constructor\<close>, \<^verbatim>\<open>byTier[tier] || 0\<close> is the inherited
  function, the count becomes a string, and \<^verbatim>\<open>tierMapping[normalizedTier]\<close> is that
  function too: the entry has the label \<open>undefined (NaN%)\<close>, the value \<open>NaN\<close> and no
  colour, where the claim has the label \<open>constructor (100%)\<close>, the value 100 and the
  neutral colour. A tier \<open>__proto__\<close> is dropped: the distribution of that one user is
  empty. And beside a user of tier \<open>pro\<close> the values 50 and \<open>NaN\<close> have no sum within
  two of 100.
\<close>

theorem membership_distribution_inherited_tier:
  "getMembershipDistribution (Some (members_of ''constructor'' 1))
   = [\<lparr>point_label = ''undefined (NaN%)'', point_value = None, point_color = None\<rparr>]
   \<and> getMembershipDistribution (Some (members_of ''__proto__'' 1)) = []
   \<and> getMembershipDistribution (Some (members_of ''pro'' 1 @ members_of ''constructor'' 1))
   = [\<lparr>point_label = ''Pro (50%)'', point_value = Some 50, point_color = Some ''#D4A317''\<rparr>,
      \<lparr>point_label = ''undefined (NaN%)'', point_value = None, point_color = None\<rparr>]"
  by code_simp

subsection \<open>CSV export\<close>

text \<open>
  C7. The analytics export does not round-trip: it writes the article title unquoted,
  so the record of an article titled \<^verbatim>\<open>Credit, "Repair" 101\<close> is read back with five
  fields instead of four.
\<close>

theorem analytics_export_splits_title:
  "handleExport_rows sample_export
     = [[''dataset'', ''id'', ''label'', ''value''],
        [''content'', ''article_1'', ''Credit, '' @ [dq] @ ''Repair'' @ [dq] @ '' 101'', ''3''],
        [[], [], ''range'', ''last_7_days''],
        [[], [], ''exported_at'', ''2026-01-01T00:00:00.000Z'']]
   \<and> parse_csv (handleExport_csv sample_export)
     = [[''dataset'', ''id'', ''label'', ''value''],
        [''content'', ''article_1'', ''Credit'', '' '' @ [dq] @ ''Repair'' @ [dq] @ '' 101'', ''3''],
        [[], [], ''range'', ''last_7_days''],
        [[], [], ''exported_at'', ''2026-01-01T00:00:00.000Z'']]
   \<and> parse_csv (handleExport_csv sample_export) \<noteq> handleExport_rows sample_export"
  by code_simp

text \<open>
  The dashboard report writes the formatted value unquoted as well: 1,420 users are read
  back as two fields. Its label, which it does quote, is read back as written.
\<close>

lemma report_export_splits_value:
  "report_record ''last_7_days'' sample_stat
     = [''total_users'', ''Total Users'', ''1,420'', ''0.0'', ''last_7_days'']
   \<and> parse_csv (handleGenerateReport_csv ''last_7_days'' [sample_stat])
     = [[''id'', ''label'', ''value'', ''delta'', ''range''],
        [''total_users'', ''Total Users'', ''1'', ''420'', ''0.0'', ''last_7_days'']]"
  by code_simp

lemma report_export_label_roundtrip:
  "parse_csv (handleGenerateReport_csv ''all_time'' [quoted_stat])
     = [[''id'', ''label'', ''value'', ''delta'', ''range''], report_record ''all_time'' quoted_stat]"
  by code_simp

subsection \<open>Top articles\<close>































subsection \<open>User creation\<close>

text \<open>
  C9, as stated, fails: for an unknown code with an empty message the thrown message is
  "Failed to create user", not the raw (empty) message.
\<close>

theorem createUser_empty_message_counterexample:
  "snd (createUser (Inl \<lparr>exn_code = Some ''auth/network-request-failed'', exn_message = Some []\<rparr>)
          None 1700000000000 sample_user)
   \<noteq> Inl (createUser_error_as_specified
             \<lparr>exn_code = Some ''auth/network-request-failed'', exn_message = Some []\<rparr>)
   \<and> snd (createUser (Inl \<lparr>exn_code = Some ''auth/network-request-failed'', exn_message = Some []\<rparr>)
          None 1700000000000 sample_user)
   = Inl ''Failed to create user''
   \<and> createUser_error_as_specified
        \<lparr>exn_code = Some ''auth/network-request-failed'', exn_message = Some []\<rparr> = []"
  by (simp add: createUser_def createUser_error_def createUser_error_as_specified_def
                str_default_def)

text \<open>
  C9, amended. \<^verbatim>\<open>createUser\<close> always makes exactly one Auth-account creation, first;
  when it succeeds, exactly one document write follows, and when that succeeds too the
  uid is returned. When the Auth creation fails no document is written and the thrown
  message is the mapped string for the three known codes and, for every other code, the
  raw message when it is non-empty and "Failed to create user" when it is empty or absent.
\<close>

theorem createUser_contract:
  "createUser (Inr uid) None now userData
     = ([CreateAuthUser (cu_email userData) (cu_password userData),
         SetDoc ''users'' uid (user_document uid now userData)], Inr uid)
   \<and> fst (createUser (Inl error) write_outcome now userData)
     = [CreateAuthUser (cu_email userData) (cu_password userData)]
   \<and> snd (createUser (Inl error) write_outcome now userData) = Inl (createUser_error error)
   \<and> (exn_code error = Some ''auth/email-already-in-use'' \<longrightarrow>
        createUser_error error = ''An account already exists with this email address.'')
   \<and> (exn_code error = Some ''auth/invalid-email'' \<longrightarrow>
        createUser_error error = ''Invalid email address.'')
   \<and> (exn_code error = Some ''auth/weak-password'' \<longrightarrow>
        createUser_error error = ''Password should be at least 6 characters.'')
   \<and> (\<not> known_auth_code (exn_code error) \<and> exn_message error = Some m \<and> m \<noteq> [] \<longrightarrow>
        createUser_error error = m)
   \<and> (\<not> known_auth_code (exn_code error) \<and> (exn_message error = None \<or> exn_message error = Some [])
        \<longrightarrow> createUser_error error = ''Failed to create user'')
   \<and> length (filter (\<lambda>x. case x of CreateAuthUser a b \<Rightarrow> True | SetDoc a b c \<Rightarrow> False)
               (fst (createUser auth_outcome write_outcome now userData))) = 1
   \<and> length (filter (\<lambda>x. case x of CreateAuthUser a b \<Rightarrow> False | SetDoc a b c \<Rightarrow> True)
               (fst (createUser auth_outcome write_outcome now userData)))
     = (case auth_outcome of Inl x \<Rightarrow> 0 | Inr y \<Rightarrow> 1)"
  by (auto simp: createUser_def createUser_error_def known_auth_code_def str_default_def Let_def
           split: sum.splits option.splits)

theorem createUser_contract_witness:
  "exn_code \<lparr>exn_code = Some ''auth/weak-password'', exn_message = Some ''Firebase: weak''\<rparr>
     = Some ''auth/weak-password''
   \<and> createUser (Inl \<lparr>exn_code = Some ''auth/weak-password'', exn_message = Some ''Firebase: weak''\<rparr>)
        None 1700000000000 sample_user
     = ([CreateAuthUser (cu_email sample_user) (cu_password sample_user)],
        Inl ''Password should be at least 6 characters.'')"
  using createUser_contract [of uid 1700000000000 sample_user
      "\<lparr>exn_code = Some ''auth/weak-password'', exn_message = Some ''Firebase: weak''\<rparr>" None m
      "Inl \<lparr>exn_code = Some ''auth/weak-password'', exn_message = Some ''Firebase: weak''\<rparr>"]
  by (simp add: prod_eq_iff)

subsection \<open>User pages\<close>

lemma js_slice_page:
  assumes "0 \<le> a" "0 \<le> n"
  shows "js_slice xs a (a + n) = take (nat n) (drop (nat a) xs)"
proof -
  define len where "len = int (length xs)"
  have l: "length (drop (nat a) xs) = nat (len - a)"
    using assms by (simp add: len_def nat_diff_distrib)
  consider (inside) "a + n \<le> len" | (over) "a \<le> len" "len < a + n" | (beyond) "len < a"
    by linarith
  then show ?thesis
  proof cases
    case inside
    then have "js_slice xs a (a + n) = take (nat (a + n - a)) (drop (nat a) xs)"
      using assms by (simp add: js_slice_def Let_def len_def min_def)
    then show ?thesis by simp
  next
    case over
    then have "js_slice xs a (a + n) = take (nat (len - a)) (drop (nat a) xs)"
      using assms by (simp add: js_slice_def Let_def len_def min_def)
    moreover have "take (nat (len - a)) (drop (nat a) xs) = drop (nat a) xs"
      using l by simp
    moreover have "take (nat n) (drop (nat a) xs) = drop (nat a) xs"
      using l over by simp
    ultimately show ?thesis by simp
  next
    case beyond
    then show ?thesis using assms by (simp add: js_slice_def Let_def len_def min_def)
  qed
qed

lemma starts_with_take: "starts_with s sub \<longleftrightarrow> take (length sub) s = sub"
  by (induction s sub rule: starts_with.induct) auto

lemma str_includes_occurs: "str_includes s sub \<longleftrightarrow> occurs_in sub s"
proof -
  have "str_includes s sub \<longleftrightarrow> (\<exists>i \<le> length s. take (length sub) (drop i s) = sub)"
  proof (induction s)
    case Nil
    then show ?case by (simp add: starts_with_take)
  next
    case (Cons x xs)
    have "(\<exists>i \<le> length (x # xs). take (length sub) (drop i (x # xs)) = sub)
          \<longleftrightarrow> take (length sub) (x # xs) = sub
              \<or> (\<exists>i \<le> length xs. take (length sub) (drop i xs) = sub)"
    proof
      assume "\<exists>i \<le> length (x # xs). take (length sub) (drop i (x # xs)) = sub"
      then obtain i where i: "i \<le> length (x # xs)" "take (length sub) (drop i (x # xs)) = sub"
        by blast
      show "take (length sub) (x # xs) = sub
              \<or> (\<exists>i \<le> length xs. take (length sub) (drop i xs) = sub)"
      proof (cases i)
        case 0
        with i show ?thesis by simp
      next
        case (Suc j)
        with i have "j \<le> length xs" "take (length sub) (drop j xs) = sub" by simp_all
        then show ?thesis by blast
      qed
    next
      assume "take (length sub) (x # xs) = sub
              \<or> (\<exists>i \<le> length xs. take (length sub) (drop i xs) = sub)"
      then show "\<exists>i \<le> length (x # xs). take (length sub) (drop i (x # xs)) = sub"
      proof
        assume "take (length sub) (x # xs) = sub"
        then have "0 \<le> length (x # xs) \<and> take (length sub) (drop 0 (x # xs)) = sub" by simp
        then show ?thesis by blast
      next
        assume "\<exists>i \<le> length xs. take (length sub) (drop i xs) = sub"
        then obtain i where "i \<le> length xs" "take (length sub) (drop i xs) = sub" by blast
        then have "Suc i \<le> length (x # xs) \<and> take (length sub) (drop (Suc i) (x # xs)) = sub"
          by simp
        then show ?thesis by blast
      qed
    qed
    with Cons show ?case by (simp add: starts_with_take del: take_Cons')
  qed
  also have "\<dots> \<longleftrightarrow> occurs_in sub s"
    unfolding occurs_in_def list_ex_iff by (auto simp add: less_Suc_eq_le simp del: upt_Suc)
  finally show ?thesis .
qed

lemma trim_empty: "trim x = [] \<longleftrightarrow> list_all is_space x"
proof -
  have "trim x = [] \<longleftrightarrow> dropWhile is_space (rev (dropWhile is_space x)) = []"
    by (simp add: trim_def)
  also have "\<dots> \<longleftrightarrow> (\<forall>c \<in> set (dropWhile is_space x). is_space c)"
    by (simp add: dropWhile_eq_Nil_conv)
  also have "\<dots> \<longleftrightarrow> dropWhile is_space x = []"
  proof
    assume a: "\<forall>c \<in> set (dropWhile is_space x). is_space c"
    show "dropWhile is_space x = []"
    proof (rule ccontr)
      assume n: "dropWhile is_space x \<noteq> []"
      then have "\<not> is_space (hd (dropWhile is_space x))" by (rule hd_dropWhile)
      moreover have "hd (dropWhile is_space x) \<in> set (dropWhile is_space x)"
        using n by simp
      ultimately show False using a by blast
    qed
  next
    assume e: "dropWhile is_space x = []"
    show "\<forall>c \<in> set (dropWhile is_space x). is_space c" unfolding e by simp
  qed
  also have "\<dots> \<longleftrightarrow> list_all is_space x"
    by (simp add: dropWhile_eq_Nil_conv list_all_iff)
  finally show ?thesis .
qed

lemma search_applies_iff:
  "search_applies s \<longleftrightarrow> (\<exists>x. s = Some x \<and> \<not> list_all is_space x)"
proof (cases s)
  case None
  then show ?thesis by (simp add: search_applies_def)
next
  case (Some x)
  have "list_all is_space x" if "x = []" using that by simp
  then show ?thesis using Some trim_empty [of x] by (auto simp: search_applies_def)
qed

lemma filtered_users:
  "(let allUsers = docs;
        allUsers = (if search_applies (search params) then
                      (let searchLower = trim (toLowerCase (case search params of
                                                              Some x \<Rightarrow> x | None \<Rightarrow> []))
                       in filter (\<lambda>user. str_includes (toLowerCase (user_name user)) searchLower
                                        \<or> str_includes (toLowerCase (user_email user)) searchLower)
                                 allUsers)
                    else allUsers);
        allUsers = (case tierFilter params of
                      Some (Only t) \<Rightarrow> filter (\<lambda>user. user_tier user = t) allUsers
                    | _ \<Rightarrow> allUsers)
    in (case statusFilter params of
          Some (Only s) \<Rightarrow> filter (\<lambda>user. user_status user = s) allUsers
        | _ \<Rightarrow> allUsers))
   = filter (passes_filters params) docs"
proof -
  have s: "(if search_applies (search params) then
              filter (\<lambda>user. str_includes (toLowerCase (user_name user))
                                 (trim (toLowerCase (case search params of Some x \<Rightarrow> x | None \<Rightarrow> [])))
                             \<or> str_includes (toLowerCase (user_email user))
                                 (trim (toLowerCase (case search params of Some x \<Rightarrow> x | None \<Rightarrow> []))))
                     docs
            else docs)
           = filter (passes_search (search params)) docs"
  proof (cases "search_applies (search params)")
    case True
    then obtain x where x: "search params = Some x" "\<not> list_all is_space x"
      using search_applies_iff by blast
    with True show ?thesis
      by (auto simp: passes_search_def str_includes_occurs intro!: filter_cong)
  next
    case False
    then have "passes_search (search params) user" for user
      using search_applies_iff [of "search params"]
      by (cases "search params") (auto simp: passes_search_def)
    with False show ?thesis by simp
  qed
  show ?thesis
    unfolding Let_def s
    by (auto simp: passes_filters_def split: option.splits filter_choice.splits
             intro!: filter_cong)
qed

lemma getUsers_unfold:
  "getUsers (Some docs) params =
     (let allUsers = filter (passes_filters params) docs;
          tot = int (length allUsers);
          startIndex = (page params - 1) * pageSize params;
          endIndex = startIndex + pageSize params
      in \<lparr>res_users = js_slice allUsers startIndex endIndex, res_total = tot,
          res_hasMore = (endIndex < tot)\<rparr>)"
  unfolding getUsers_def option.case filtered_users [of docs params, symmetric] Let_def ..

text \<open>
  C10. For a page of at least 1 and a page size of at least 0, \<^verbatim>\<open>getUsers\<close> returns the
  slice of the filtered list from index \<open>(page - 1) * pageSize\<close>, of at most
  \<open>pageSize\<close> users, each passing the filters; \<open>total\<close> is the number of users that pass
  them, and \<open>hasMore\<close> holds exactly when \<open>page * pageSize < total\<close>.
\<close>

theorem getUsers_page:
  "1 \<le> page params \<Longrightarrow> 0 \<le> pageSize params \<Longrightarrow>
   res_users (getUsers (Some docs) params)
     = take (nat (pageSize params))
         (drop (nat ((page params - 1) * pageSize params)) (filter (passes_filters params) docs))
   \<and> int (length (res_users (getUsers (Some docs) params))) \<le> pageSize params
   \<and> (\<forall>user \<in> set (res_users (getUsers (Some docs) params)). passes_filters params user)
   \<and> res_total (getUsers (Some docs) params)
     = int (length (filter (passes_filters params) docs))
   \<and> (res_hasMore (getUsers (Some docs) params)
        \<longleftrightarrow> page params * pageSize params < res_total (getUsers (Some docs) params))"
proof -
  assume p: "1 \<le> page params" and s: "0 \<le> pageSize params"
  have i: "0 \<le> (page params - 1) * pageSize params" using p s by simp
  have u: "res_users (getUsers (Some docs) params)
     = take (nat (pageSize params))
         (drop (nat ((page params - 1) * pageSize params)) (filter (passes_filters params) docs))"
    by (simp add: getUsers_unfold Let_def js_slice_page [OF i s])
  have l: "int (length (res_users (getUsers (Some docs) params))) \<le> pageSize params"
    unfolding u using s by simp
  have f: "\<forall>user \<in> set (res_users (getUsers (Some docs) params)). passes_filters params user"
    unfolding u by (auto dest!: in_set_takeD in_set_dropD)
  have t: "res_total (getUsers (Some docs) params)
     = int (length (filter (passes_filters params) docs))"
    by (simp add: getUsers_unfold Let_def)
  have e: "(page params - 1) * pageSize params + pageSize params = page params * pageSize params"
    by (simp add: algebra_simps)
  have h: "res_hasMore (getUsers (Some docs) params)
        \<longleftrightarrow> page params * pageSize params < res_total (getUsers (Some docs) params)"
    by (simp add: getUsers_unfold Let_def e)
  from u l f t h show ?thesis by (intro conjI)
qed

text \<open>
  The second page of one among the six sample users, searching \<open>" ANN "\<close> among the active
  Pro users: three users pass, and the page holds the second of them. A blank search
  leaves nobody out: the second page of four holds the last two users.
\<close>

theorem getUsers_page_witness:
  "1 \<le> page sample_params \<and> 0 \<le> pageSize sample_params
   \<and> filter (passes_filters sample_params) sample_users
       = [sample_users ! 0, sample_users ! 4, sample_users ! 5]
   \<and> res_users (getUsers (Some sample_users) sample_params) = [sample_users ! 4]
   \<and> res_total (getUsers (Some sample_users) sample_params) = 3
   \<and> res_hasMore (getUsers (Some sample_users) sample_params)
   \<and> 1 \<le> page blank_params \<and> 0 \<le> pageSize blank_params
   \<and> res_users (getUsers (Some sample_users) blank_params) = [sample_users ! 4, sample_users ! 5]
   \<and> res_total (getUsers (Some sample_users) blank_params) = 6
   \<and> \<not> res_hasMore (getUsers (Some sample_users) blank_params)"
proof -
  have p: "1 \<le> page sample_params" and s: "0 \<le> pageSize sample_params"
    by (simp_all add: sample_params_def)
  have f: "filter (passes_filters sample_params) sample_users
           = [sample_users ! 0, sample_users ! 4, sample_users ! 5]"
    by code_simp
  have n: "page sample_params = 2" "pageSize sample_params = 1"
    by (simp_all add: sample_params_def)
  note th = getUsers_page [OF p s, of sample_users]
  from th have 1: "res_users (getUsers (Some sample_users) sample_params) = [sample_users ! 4]"
    unfolding f n by simp
  from th have 2: "res_total (getUsers (Some sample_users) sample_params) = 3"
    unfolding f n by simp
  from th 2 have 3: "res_hasMore (getUsers (Some sample_users) sample_params)"
    unfolding n by simp
  have p': "1 \<le> page blank_params" and s': "0 \<le> pageSize blank_params"
    by (simp_all add: blank_params_def)
  have f': "filter (passes_filters blank_params) sample_users = sample_users"
    by code_simp
  have n': "page blank_params = 2" "pageSize blank_params = 4"
    by (simp_all add: blank_params_def)
  have d: "drop 4 sample_users = [sample_users ! 4, sample_users ! 5]" by code_simp
  have k: "length sample_users = 6" by code_simp
  note th' = getUsers_page [OF p' s', of sample_users]
  from th' have 4: "res_users (getUsers (Some sample_users) blank_params)
                    = [sample_users ! 4, sample_users ! 5]"
    unfolding f' n' by (simp add: d)
  from th' have 5: "res_total (getUsers (Some sample_users) blank_params) = 6"
    unfolding f' n' by (simp add: k)
  from th' 5 have 6: "\<not> res_hasMore (getUsers (Some sample_users) blank_params)"
    unfolding n' by simp
  from p s f 1 2 3 p' s' 4 5 6 show ?thesis by (intro conjI)
qed

subsection \<open>Percentage change\<close>

text \<open>
  C3. Both copies of the delta function give 100 for a positive current value against
  a previous value of 0, give 0 for 0 against 0, and give
  \<open>(current - previous) / previous * 100\<close> for every non-zero previous value; in
  particular 150 against 100 gives 50.
\<close>

theorem delta_contract:
  "(0 < x \<longrightarrow> calculateDelta x 0 = 100 \<and> getDeltaPercentage x (Some 0) = 100)
   \<and> calculateDelta 0 0 = 0 \<and> getDeltaPercentage 0 (Some 0) = 0
   \<and> (p \<noteq> 0 \<longrightarrow> calculateDelta c p = (c - p) / p * 100
                  \<and> getDeltaPercentage c (Some p) = (c - p) / p * 100)
   \<and> calculateDelta 150 100 = 50 \<and> getDeltaPercentage 150 (Some 100) = 50"
  by (simp add: calculateDelta_def getDeltaPercentage_def)

theorem delta_contract_witness:
  "(0::rat) < 7 \<and> (40::rat) \<noteq> 0
   \<and> calculateDelta 7 0 = 100 \<and> getDeltaPercentage 7 (Some 0) = 100
   \<and> calculateDelta 30 40 = -25 \<and> getDeltaPercentage 30 (Some 40) = -25"
  using delta_contract [of 7 40 30] by simp

subsection \<open>Dispute status\<close>

lemma nonempty_array_truthy: "nonempty_array v \<Longrightarrow> truthy v"
  by (cases v) auto

lemma js_or_empty_array: "nonempty_array (js_or v (JArr [])) = nonempty_array v"
  by (cases v) (auto simp: js_or_def)

text \<open>
  C2, as stated, fails twice. A dispute whose status is \<open>closed\<close>, owned by a user
  with a letter, is reported resolved, where the stated derivation gives mailed. And a
  dispute without status, owned by a user whose \<open>letters\<close> array is empty and whose
  \<open>generatedLetters\<close> array holds a letter, is reported open, where the stated derivation
  gives mailed: \<^verbatim>\<open>userData.letters || userData.generatedLetters\<close> selects the empty
  array, which is truthy.
\<close>

theorem dispute_status_counterexample:
  "determineDisputeStatus (JObj [(''status'', JStr ''closed'')])
                          (JObj [(''letters'', JArr [JObj []])])
   = Inr Resolved
   \<and> dispute_status_as_specified
       (get_field (JObj [(''status'', JStr ''closed'')]) ''status'')
       (user_has_letters (JObj [(''letters'', JArr [JObj []])]))
     = Mailed
   \<and> determineDisputeStatus (JObj [])
        (JObj [(''letters'', JArr []), (''generatedLetters'', JArr [JObj []])])
   = Inr Open
   \<and> dispute_status_as_specified (get_field (JObj []) ''status'')
       (user_has_letters (JObj [(''letters'', JArr []), (''generatedLetters'', JArr [JObj []])]))
     = Mailed"
  by (simp add: determineDisputeStatus_def dispute_status_as_specified_def
                hasLettersForDispute_def user_has_letters_def js_or_def)

text \<open>
  C2, amended. Leave aside the user documents whose \<open>letters\<close> field is present without
  being a non-empty array while \<open>generatedLetters\<close> is a non-empty array. For every other
  user document and every dispute object, the status is a function of the dispute's own
  status field and of whether the user has letters: resolved when the field is
  \<open>resolved\<close> or \<open>closed\<close>, otherwise mailed when the \<open>letters\<close> array or the
  \<open>generatedLetters\<close> array is non-empty, otherwise open.
\<close>

theorem dispute_status_pure:
  assumes "\<not> letters_shadowed userData"
  shows "determineDisputeStatus (JObj fs) userData
         = Inr (dispute_status_with_closed (get_field (JObj fs) ''status'')
                                           (user_has_letters userData))"
proof -
  have "hasLettersForDispute userData = user_has_letters userData"
    using assms nonempty_array_truthy [of "get_field userData ''letters''"]
    unfolding hasLettersForDispute_def user_has_letters_def letters_shadowed_def
              js_or_empty_array
    by (auto simp: js_or_def)
  then show ?thesis
    by (simp add: determineDisputeStatus_def dispute_status_with_closed_def)
qed

theorem dispute_status_pure_witness:
  "\<not> letters_shadowed (JObj [(''letters'', JArr [JObj []])])
   \<and> \<not> letters_shadowed (JObj [(''generatedLetters'', JArr [JObj []])])
   \<and> \<not> letters_shadowed (JObj [(''letters'', JArr [])])
   \<and> determineDisputeStatus (JObj [(''status'', JStr ''resolved'')])
                          (JObj [(''letters'', JArr [JObj []])]) = Inr Resolved
   \<and> determineDisputeStatus (JObj [(''status'', JStr ''closed'')])
                          (JObj [(''letters'', JArr [JObj []])]) = Inr Resolved
   \<and> determineDisputeStatus (JObj [(''status'', JStr ''open'')])
                          (JObj [(''letters'', JArr [JObj []])]) = Inr Mailed
   \<and> determineDisputeStatus (JObj []) (JObj [(''generatedLetters'', JArr [JObj []])]) = Inr Mailed
   \<and> determineDisputeStatus (JObj []) (JObj [(''letters'', JArr [])]) = Inr Open"
proof -
  have a: "\<not> letters_shadowed (JObj [(''letters'', JArr [JObj []])])"
    by (simp add: letters_shadowed_def)
  have b: "\<not> letters_shadowed (JObj [(''generatedLetters'', JArr [JObj []])])"
    by (simp add: letters_shadowed_def)
  have c: "\<not> letters_shadowed (JObj [(''letters'', JArr [])])"
    by (simp add: letters_shadowed_def)
  show ?thesis
    using dispute_status_pure [OF a, of "[(''status'', JStr ''resolved'')]"]
          dispute_status_pure [OF a, of "[(''status'', JStr ''closed'')]"]
          dispute_status_pure [OF a, of "[(''status'', JStr ''open'')]"]
          dispute_status_pure [OF b, of "[]"]
          dispute_status_pure [OF c, of "[]"] a b c
    by (simp add: dispute_status_with_closed_def user_has_letters_def)
qed

subsection \<open>Journey stage\<close>

text \<open>
  C5. A user document whose \<open>documentsCompleted\<close> field is not the boolean \<open>true\<close>
  (false, absent or any other value) is in the stage "Onboarding & profile complete",
  whatever its other fields hold and whatever the current time is.
\<close>

theorem journey_onboarding:
  "get_field userData ''documentsCompleted'' \<noteq> JBool True
   \<Longrightarrow> calculateJourneyStage now userData = ''Onboarding & profile complete''"
  by (simp add: calculateJourneyStage_def Let_def)

theorem journey_onboarding_witness:
  "get_field (JObj [(''documentsCompleted'', JBool False),
                    (''creditReportUrl'', JStr ''https://x/r.pdf''),
                    (''membershipTier'', JStr ''pro''),
                    (''creditReportAnalysis'', JObj [(''disputeCandidates'', JArr [JObj []])]),
                    (''letters'', JArr [JObj []])]) ''documentsCompleted'' \<noteq> JBool True
   \<and> calculateJourneyStage 1700000000000
       (JObj [(''documentsCompleted'', JBool False),
              (''creditReportUrl'', JStr ''https://x/r.pdf''),
              (''membershipTier'', JStr ''pro''),
              (''creditReportAnalysis'', JObj [(''disputeCandidates'', JArr [JObj []])]),
              (''letters'', JArr [JObj []])])
     = ''Onboarding & profile complete''"
  using journey_onboarding [of "JObj [(''documentsCompleted'', JBool False),
              (''creditReportUrl'', JStr ''https://x/r.pdf''),
              (''membershipTier'', JStr ''pro''),
              (''creditReportAnalysis'', JObj [(''disputeCandidates'', JArr [JObj []])]),
              (''letters'', JArr [JObj []])]" 1700000000000]
  by simp

end

